theory Spec2Isabelle
  imports Complex_Main
begin

section \<open>Data model\<close>

text \<open>
  The playback dictionary returned by the Web API client (\<open>sp.current_playback()\<close>).
  The code reads \<open>playback.get('item')\<close>, \<open>playback['item']['uri']\<close>,
  \<open>playback['item']['id']\<close>, \<open>playback['item']['duration_ms']\<close>,
  \<open>playback.get('is_playing', False)\<close> and \<open>playback.get('progress_ms', 0)\<close>.
  A key read with \<open>.get\<close> may be missing: it is an option here, and the default of
  \<open>.get\<close> is applied where the code applies it.
\<close>

record item =
  item_uri :: string
  item_id :: string
  item_duration_ms :: int

record playback =
  item :: "item option"
  is_playing :: "bool option"
  progress_ms :: "int option"

text \<open>A call to the remote client either raises or returns a value.\<close>

datatype 'a outcome = Raises | Returns 'a

text \<open>
  \<open>subprocess.run\<close> of the capture script: the process ends with an exit code, the
  call is interrupted (\<open>KeyboardInterrupt\<close>), or it raises another exception (the script
  is missing, not executable, ...).
\<close>

datatype run_outcome = Exited int | KeyboardInterrupt | OtherException

datatype run_result =
    Completed int
  | CalledProcessError int
  | RaisedKeyboardInterrupt
  | RaisedException

text \<open>\<open>os.kill\<close>: the signal is delivered, the process is gone, or another error.\<close>

datatype kill_outcome = Delivered | ProcessLookupError | KillException

datatype signal = SIGTERM | SIGKILL

type_synonym hook = nat

text \<open>
  The messages handed to the logging helpers \<open>DINFO\<close>, \<open>DERROR\<close> and \<open>DOK\<close>, one
  constructor for each format string of the code, with the values it interpolates.
\<close>

datatype msg =
    FailedToGetPlaybackState
  | WaitingForPlaybackToStart
  | TrackStartedAt int
  | TrackPlayingButAt int
  | TimeoutWaitingForTrack string
  | PlaybackStopped
  | TrackChanged "string option" string
  | TrackPositionVerified int
  | WaitingForPositionReset int
  | TrackDidNotReset int
  | StartingClient
  | FailedToStartSpotify
  | FoundSpotifyDevices "string list"
  | WaitingForSpotifyDevice int
  | NoSpotifyDeviceFound
  | CannotStartPlayback
  | StartingPlaybackViaWebApi int int string
  | NoPlaybackStateAvailable
  | TrackVerifiedPlaying string int
  | WrongTrackPlaying string string
  | ErrorStartingPlayback int
  | FailedToStartPlaybackAfter int
  | StartingRecordingFor string
  | RecordingProcessExited int
  | OutputFileNotCreated string
  | OutputFileTooSmall nat int
  | RecordingCompleted string nat
  | RecordingFailed
  | RecordingInterrupted
  | UnexpectedErrorDuringRecording
  | ErrorCleaningUp

text \<open>Everything the code does to the outside world, in the order it does it.\<close>

datatype event =
    Sleep real
  | DINFO msg
  | DERROR msg
  | DOK msg
  | SpCurrentPlayback
  | SpDevices
  | SpStartPlayback "string list" int
  | Popen "string list"
  | RunSpotdl string string int bool
  | Kill nat signal
  | Pkill
  | OnChange hook string playback

text \<open>
  The outside world as the code meets it: what each future call will answer, and the
  trace of the effects performed so far. \<open>times\<close> are the successive values of
  \<open>time.time()\<close> (seconds), \<open>playbacks\<close> the successive outcomes of
  \<open>sp.current_playback()\<close>, \<open>device_lists\<close> those of \<open>sp.devices()\<close> (the names
  under the key \<open>'devices'\<close>, empty when the answer has none), \<open>start_playbacks\<close>
  those of \<open>sp.start_playback\<close>, \<open>popens\<close> whether each \<open>subprocess.Popen\<close> spawns
  (\<open>False\<close>: it raises), \<open>runs\<close> the outcomes of running the capture script,
  \<open>kills\<close> those of \<open>os.kill\<close>, and \<open>files\<close> the sizes of the files present once
  the capture script has ended. A function whose next call has no answer left in the
  world has no result (\<open>None\<close>).
\<close>

record world =
  times :: "real list"
  playbacks :: "playback option outcome list"
  device_lists :: "string list outcome list"
  start_playbacks :: "unit outcome list"
  popens :: "bool list"
  runs :: "run_outcome list"
  kills :: "kill_outcome list"
  files :: "string \<rightharpoonup> nat"
  trace :: "event list"

definition emit :: "event \<Rightarrow> world \<Rightarrow> world" where
  "emit e w = w\<lparr>trace := trace w @ [e]\<rparr>"

definition emit_if :: "bool \<Rightarrow> event \<Rightarrow> world \<Rightarrow> world" where
  "emit_if b e w = (if b then emit e w else w)"

definition sleep :: "real \<Rightarrow> world \<Rightarrow> world" where
  "sleep s w = emit (Sleep s) w"

definition time_time :: "world \<Rightarrow> (real \<times> world) option" where
  "time_time w = (case times w of [] \<Rightarrow> None | t # ts \<Rightarrow> Some (t, w\<lparr>times := ts\<rparr>))"

definition sp_current_playback :: "world \<Rightarrow> (playback option outcome \<times> world) option" where
  "sp_current_playback w =
     (case playbacks w of
        [] \<Rightarrow> None
      | r # rs \<Rightarrow> Some (r, emit SpCurrentPlayback (w\<lparr>playbacks := rs\<rparr>)))"

section \<open>PlaybackMonitor (playback\_monitor.py)\<close>

record monitor =
  poll_interval :: real
  verbose :: bool
  current_track_id :: "string option"
  current_track_uri :: "string option"

definition PlaybackMonitor_init :: "real \<Rightarrow> bool \<Rightarrow> monitor" where
  "PlaybackMonitor_init p v =
     \<lparr>poll_interval = p, verbose = v, current_track_id = None, current_track_uri = None\<rparr>"

text \<open>
  Every method takes the monitor object and the world and returns its value with the
  monitor and the world as it leaves them.
\<close>

definition get_playback_state ::
  "monitor \<Rightarrow> world \<Rightarrow> (playback option \<times> monitor \<times> world) option" where
  "get_playback_state m w =
     (case sp_current_playback w of
        None \<Rightarrow> None
      | Some (Returns pb, w1) \<Rightarrow> Some (pb, m, w1)
      | Some (Raises, w1) \<Rightarrow>
          Some (None, m, emit_if (verbose m) (DERROR FailedToGetPlaybackState) w1))"

text \<open>\<open>not playback or not playback.get('item')\<close>: the item of a usable answer.\<close>

definition playing_item :: "playback option \<Rightarrow> (playback \<times> item) option" where
  "playing_item pb =
     (case pb of
        None \<Rightarrow> None
      | Some p \<Rightarrow> (case item p of None \<Rightarrow> None | Some it \<Rightarrow> Some (p, it)))"

definition get_is_playing :: "playback \<Rightarrow> bool" where
  "get_is_playing p = (case is_playing p of None \<Rightarrow> False | Some b \<Rightarrow> b)"

definition get_progress_ms :: "playback \<Rightarrow> int" where
  "get_progress_ms p = (case progress_ms p of None \<Rightarrow> 0 | Some n \<Rightarrow> n)"

lemma times_emit [simp]: "times (emit e w) = times w"
  by (simp add: emit_def)

lemma times_emit_if [simp]: "times (emit_if b e w) = times w"
  by (simp add: emit_if_def)

lemma times_sleep [simp]: "times (sleep s w) = times w"
  by (simp add: sleep_def)

lemma playbacks_emit [simp]: "playbacks (emit e w) = playbacks w"
  by (simp add: emit_def)

lemma playbacks_emit_if [simp]: "playbacks (emit_if b e w) = playbacks w"
  by (simp add: emit_if_def)

lemma playbacks_sleep [simp]: "playbacks (sleep s w) = playbacks w"
  by (simp add: sleep_def)

lemma time_time_length:
  "time_time w = Some (t, w1) \<Longrightarrow> length (times w1) < length (times w)"
  by (auto simp: time_time_def split: list.splits)

lemma time_time_playbacks:
  "time_time w = Some (t, w1) \<Longrightarrow> playbacks w1 = playbacks w"
  by (auto simp: time_time_def split: list.splits)

lemma get_playback_state_times:
  "get_playback_state m w = Some (pb, m1, w1) \<Longrightarrow> times w1 = times w"
  by (auto simp: get_playback_state_def sp_current_playback_def
      split: list.splits outcome.splits)

lemma get_playback_state_length:
  "get_playback_state m w = Some (pb, m1, w1) \<Longrightarrow> length (playbacks w1) < length (playbacks w)"
  by (auto simp: get_playback_state_def sp_current_playback_def
      split: list.splits outcome.splits)

text \<open>The \<open>while\<close> loop of \<open>wait_for_track_start\<close>, entered with \<open>start_time\<close> read.\<close>

function wait_for_track_start_loop ::
  "monitor \<Rightarrow> string \<Rightarrow> int \<Rightarrow> real \<Rightarrow> world \<Rightarrow> (bool \<times> monitor \<times> world) option" where
  "wait_for_track_start_loop m expected_uri timeout start_time w =
     (case time_time w of
        None \<Rightarrow> None
      | Some (t, w1) \<Rightarrow>
          if t - start_time < real_of_int timeout then
            (case get_playback_state m w1 of
               None \<Rightarrow> None
             | Some (pb, m1, w2) \<Rightarrow>
                 (case playing_item pb of
                    None \<Rightarrow>
                      wait_for_track_start_loop m1 expected_uri timeout start_time
                        (sleep (poll_interval m1)
                           (emit_if (verbose m1) (DINFO WaitingForPlaybackToStart) w2))
                  | Some (p, it) \<Rightarrow>
                      if item_uri it = expected_uri \<and> get_is_playing p then
                        if get_progress_ms p < 2000 then
                          Some (True,
                                m1\<lparr>current_track_id := Some (item_id it),
                                   current_track_uri := Some (item_uri it)\<rparr>,
                                emit_if (verbose m1) (DOK (TrackStartedAt (get_progress_ms p))) w2)
                        else
                          wait_for_track_start_loop m1 expected_uri timeout start_time
                            (sleep (poll_interval m1)
                               (emit_if (verbose m1)
                                  (DINFO (TrackPlayingButAt (get_progress_ms p))) w2))
                      else
                        wait_for_track_start_loop m1 expected_uri timeout start_time
                          (sleep (poll_interval m1) w2)))
          else Some (False, m, emit (DERROR (TimeoutWaitingForTrack expected_uri)) w1))"
  by pat_completeness auto
termination
  by (relation "measure (\<lambda>(m, e, T, s, w). length (times w))")
     (auto dest!: time_time_length get_playback_state_times)

definition wait_for_track_start ::
  "monitor \<Rightarrow> string \<Rightarrow> int \<Rightarrow> world \<Rightarrow> (bool \<times> monitor \<times> world) option" where
  "wait_for_track_start m expected_uri timeout w =
     (case time_time w of
        None \<Rightarrow> None
      | Some (start_time, w1) \<Rightarrow> wait_for_track_start_loop m expected_uri timeout start_time w1)"

text \<open>\<open>monitor_until_track_change\<close>: \<open>while True\<close>, left only by a \<open>return\<close>.\<close>

function monitor_until_track_change ::
  "monitor \<Rightarrow> hook option \<Rightarrow> world \<Rightarrow> (string option \<times> monitor \<times> world) option" where
  "monitor_until_track_change m on_change w =
     (case get_playback_state m w of
        None \<Rightarrow> None
      | Some (pb, m1, w1) \<Rightarrow>
          (case playing_item pb of
             None \<Rightarrow> Some (None, m1, emit_if (verbose m1) (DINFO PlaybackStopped) w1)
           | Some (p, it) \<Rightarrow>
               if Some (item_uri it) \<noteq> current_track_uri m1 then
                 Some (Some (item_uri it), m1,
                       (case on_change of
                          None \<Rightarrow> (\<lambda>w. w)
                        | Some h \<Rightarrow> emit (OnChange h (item_uri it) p))
                         (emit_if (verbose m1)
                            (DINFO (TrackChanged (current_track_uri m1) (item_uri it))) w1))
               else monitor_until_track_change m1 on_change (sleep (poll_interval m1) w1)))"
  by pat_completeness auto
termination
  by (relation "measure (\<lambda>(m, h, w). length (playbacks w))")
     (auto dest!: get_playback_state_length)

definition get_remaining_time :: "monitor \<Rightarrow> world \<Rightarrow> (int option \<times> monitor \<times> world) option" where
  "get_remaining_time m w =
     (case get_playback_state m w of
        None \<Rightarrow> None
      | Some (pb, m1, w1) \<Rightarrow>
          (case playing_item pb of
             None \<Rightarrow> Some (None, m1, w1)
           | Some (p, it) \<Rightarrow> Some (Some (item_duration_ms it - get_progress_ms p), m1, w1)))"

function wait_for_position_reset_loop ::
  "monitor \<Rightarrow> string \<Rightarrow> int \<Rightarrow> real \<Rightarrow> world \<Rightarrow> (bool \<times> monitor \<times> world) option" where
  "wait_for_position_reset_loop m expected_uri max_wait start_time w =
     (case time_time w of
        None \<Rightarrow> None
      | Some (t, w1) \<Rightarrow>
          if t - start_time < real_of_int max_wait then
            (case get_playback_state m w1 of
               None \<Rightarrow> None
             | Some (pb, m1, w2) \<Rightarrow>
                 (case playing_item pb of
                    None \<Rightarrow>
                      wait_for_position_reset_loop m1 expected_uri max_wait start_time
                        (sleep (poll_interval m1) w2)
                  | Some (p, it) \<Rightarrow>
                      if item_uri it = expected_uri then
                        if get_progress_ms p < 1000 then
                          Some (True, m1,
                                emit_if (verbose m1)
                                  (DOK (TrackPositionVerified (get_progress_ms p))) w2)
                        else
                          wait_for_position_reset_loop m1 expected_uri max_wait start_time
                            (sleep (poll_interval m1)
                               (emit_if (verbose m1)
                                  (DINFO (WaitingForPositionReset (get_progress_ms p))) w2))
                      else
                        wait_for_position_reset_loop m1 expected_uri max_wait start_time
                          (sleep (poll_interval m1) w2)))
          else Some (False, m, emit (DERROR (TrackDidNotReset max_wait)) w1))"
  by pat_completeness auto
termination
  by (relation "measure (\<lambda>(m, e, T, s, w). length (times w))")
     (auto dest!: time_time_length get_playback_state_times)

definition wait_for_position_reset ::
  "monitor \<Rightarrow> string \<Rightarrow> int \<Rightarrow> world \<Rightarrow> (bool \<times> monitor \<times> world) option" where
  "wait_for_position_reset m expected_uri max_wait w =
     (case time_time w of
        None \<Rightarrow> None
      | Some (start_time, w1) \<Rightarrow>
          wait_for_position_reset_loop m expected_uri max_wait start_time w1)"

section \<open>SpotifyRecorder (recorder.py)\<close>

text \<open>
  The recorder object. \<open>__init__\<close> sets \<open>recording_pid\<close> to \<open>None\<close>; the client
  \<open>sp\<close> is the world, and the field \<open>monitor\<close> is read by none of its methods.
\<close>

record recorder =
  r_verbose :: bool
  recording_pid :: "nat option"

definition SpotifyRecorder_init :: "bool \<Rightarrow> recorder" where
  "SpotifyRecorder_init v = \<lparr>r_verbose = v, recording_pid = None\<rparr>"

definition subprocess_Popen :: "string list \<Rightarrow> world \<Rightarrow> (bool \<times> world) option" where
  "subprocess_Popen cmd w =
     (case popens w of
        [] \<Rightarrow> None
      | ok # rest \<Rightarrow> Some (ok, emit (Popen cmd) (w\<lparr>popens := rest\<rparr>)))"

definition sp_devices :: "world \<Rightarrow> (string list outcome \<times> world) option" where
  "sp_devices w =
     (case device_lists w of
        [] \<Rightarrow> None
      | r # rs \<Rightarrow> Some (r, emit SpDevices (w\<lparr>device_lists := rs\<rparr>)))"

definition sp_start_playback ::
  "string list \<Rightarrow> int \<Rightarrow> world \<Rightarrow> (unit outcome \<times> world) option" where
  "sp_start_playback uris position_ms w =
     (case start_playbacks w of
        [] \<Rightarrow> None
      | r # rs \<Rightarrow> Some (r, emit (SpStartPlayback uris position_ms) (w\<lparr>start_playbacks := rs\<rparr>)))"

text \<open>Python's \<open>int(x)\<close> on a float truncates towards zero.\<close>

definition py_int :: "real \<Rightarrow> int" where
  "py_int x = (if 0 \<le> x then \<lfloor>x\<rfloor> else \<lceil>x\<rceil>)"

lemma times_sp_devices:
  "sp_devices w = Some (r, w1) \<Longrightarrow> times w1 = times w"
  by (auto simp: sp_devices_def split: list.splits)

text \<open>
  The \<open>while\<close> loop of \<open>ensure_spotify_device_active\<close> that waits for a device. The
  \<open>except\<close> branch reads the clock once more for its message when \<open>verbose\<close>.
\<close>

function wait_for_device ::
  "recorder \<Rightarrow> int \<Rightarrow> real \<Rightarrow> world \<Rightarrow> (bool \<times> world) option" where
  "wait_for_device r max_wait start_time w =
     (case time_time w of
        None \<Rightarrow> None
      | Some (t, w1) \<Rightarrow>
          if t - start_time < real_of_int max_wait then
            (case sp_devices w1 of
               None \<Rightarrow> None
             | Some (Returns devs, w2) \<Rightarrow>
                 if devs \<noteq> [] then
                   Some (True, emit_if (r_verbose r) (DOK (FoundSpotifyDevices devs)) w2)
                 else wait_for_device r max_wait start_time (sleep 1 w2)
             | Some (Raises, w2) \<Rightarrow>
                 if r_verbose r then
                   (case time_time w2 of
                      None \<Rightarrow> None
                    | Some (t2, w3) \<Rightarrow>
                        wait_for_device r max_wait start_time
                          (sleep 1
                             (emit (DINFO (WaitingForSpotifyDevice (py_int (t2 - start_time))))
                                w3)))
                 else wait_for_device r max_wait start_time (sleep 1 w2))
          else Some (False, emit (DERROR NoSpotifyDeviceFound) w1))"
  by pat_completeness auto
termination
  by (relation "measure (\<lambda>(r, mw, s, w). length (times w))")
     (auto dest!: time_time_length times_sp_devices)

definition device_wait :: "recorder \<Rightarrow> int \<Rightarrow> world \<Rightarrow> (bool \<times> world) option" where
  "device_wait r max_wait w =
     (case time_time w of
        None \<Rightarrow> None
      | Some (start_time, w1) \<Rightarrow> wait_for_device r max_wait start_time w1)"

definition ensure_spotify_device_active ::
  "recorder \<Rightarrow> int \<Rightarrow> world \<Rightarrow> (bool \<times> world) option" where
  "ensure_spotify_device_active r max_wait w =
     (case subprocess_Popen [''spotify''] (emit_if (r_verbose r) (DINFO StartingClient) w) of
        None \<Rightarrow> None
      | Some (True, w1) \<Rightarrow> device_wait r max_wait w1
      | Some (False, w1) \<Rightarrow>
          (case subprocess_Popen [''/snap/bin/spotify''] w1 of
             None \<Rightarrow> None
           | Some (True, w2) \<Rightarrow> device_wait r max_wait w2
           | Some (False, w2) \<Rightarrow> Some (False, emit (DERROR FailedToStartSpotify) w2)))"

text \<open>\<open>if attempt < max_retries - 1: time.sleep(1)\<close>, the end of the loop body.\<close>

definition wait_before_retry :: "int \<Rightarrow> int \<Rightarrow> world \<Rightarrow> world" where
  "wait_before_retry attempt max_retries w =
     (if attempt < max_retries - 1 then sleep 1 w else w)"

text \<open>The \<open>except Exception\<close> branch of the loop body, followed by the end of the body.\<close>

definition attempt_raised :: "recorder \<Rightarrow> int \<Rightarrow> int \<Rightarrow> world \<Rightarrow> world" where
  "attempt_raised r attempt max_retries w =
     wait_before_retry attempt max_retries
       (emit_if (r_verbose r) (DERROR (ErrorStartingPlayback (attempt + 1))) w)"

text \<open>
  \<open>for attempt in range(max_retries)\<close>: the attempts still to make are the list the
  loop runs over. \<open>continue\<close> goes to the next attempt at once.
\<close>

fun attempts ::
  "recorder \<Rightarrow> string \<Rightarrow> int \<Rightarrow> int list \<Rightarrow> world \<Rightarrow> (bool \<times> world) option" where
  "attempts r uri max_retries [] w =
     Some (False, emit (DERROR (FailedToStartPlaybackAfter max_retries)) w)"
| "attempts r uri max_retries (attempt # rest) w =
     (case sp_start_playback [uri] 0
             (emit_if (r_verbose r)
                (DINFO (StartingPlaybackViaWebApi (attempt + 1) max_retries uri)) w) of
        None \<Rightarrow> None
      | Some (Raises, w1) \<Rightarrow>
          attempts r uri max_retries rest (attempt_raised r attempt max_retries w1)
      | Some (Returns _, w1) \<Rightarrow>
          (case sp_current_playback (sleep 2 w1) of
             None \<Rightarrow> None
           | Some (Raises, w2) \<Rightarrow>
               attempts r uri max_retries rest (attempt_raised r attempt max_retries w2)
           | Some (Returns current, w2) \<Rightarrow>
               (case playing_item current of
                  None \<Rightarrow>
                    attempts r uri max_retries rest
                      (emit_if (r_verbose r) (DERROR NoPlaybackStateAvailable) w2)
                | Some (p, it) \<Rightarrow>
                    if item_uri it = uri \<and> get_is_playing p then
                      Some (True,
                            emit_if (r_verbose r)
                              (DOK (TrackVerifiedPlaying uri (get_progress_ms p))) w2)
                    else
                      attempts r uri max_retries rest
                        (wait_before_retry attempt max_retries
                           (emit_if (r_verbose r)
                              (DERROR (WrongTrackPlaying uri (item_uri it))) w2)))))"

definition py_range :: "int \<Rightarrow> int list" where
  "py_range n = map int [0..<nat n]"

definition start_playback_web_api ::
  "recorder \<Rightarrow> string \<Rightarrow> int \<Rightarrow> world \<Rightarrow> (bool \<times> world) option" where
  "start_playback_web_api r uri max_retries w =
     (case ensure_spotify_device_active r 15 w of
        None \<Rightarrow> None
      | Some (False, w1) \<Rightarrow> Some (False, emit (DERROR CannotStartPlayback) w1)
      | Some (True, w1) \<Rightarrow> attempts r uri max_retries (py_range max_retries) w1)"

definition os_kill :: "nat \<Rightarrow> signal \<Rightarrow> world \<Rightarrow> (kill_outcome \<times> world) option" where
  "os_kill pid sig w =
     (case kills w of
        [] \<Rightarrow> None
      | k # ks \<Rightarrow> Some (k, emit (Kill pid sig) (w\<lparr>kills := ks\<rparr>)))"

text \<open>The \<open>try\<close> block of \<open>_cleanup_recording\<close> that signals the held process.\<close>

definition kill_recording :: "recorder \<Rightarrow> nat \<Rightarrow> world \<Rightarrow> world option" where
  "kill_recording r pid w =
     (case os_kill pid SIGTERM w of
        None \<Rightarrow> None
      | Some (ProcessLookupError, w1) \<Rightarrow> Some w1
      | Some (KillException, w1) \<Rightarrow> Some (emit_if (r_verbose r) (DERROR ErrorCleaningUp) w1)
      | Some (Delivered, w1) \<Rightarrow>
          (case os_kill pid SIGKILL (sleep 0.5 w1) of
             None \<Rightarrow> None
           | Some (ProcessLookupError, w2) \<Rightarrow> Some w2
           | Some (KillException, w2) \<Rightarrow>
               Some (emit_if (r_verbose r) (DERROR ErrorCleaningUp) w2)
           | Some (Delivered, w2) \<Rightarrow> Some w2))"

text \<open>\<open>if self.recording_pid\<close> is false for \<open>None\<close> and for \<open>0\<close>.\<close>

definition cleanup_recording :: "recorder \<Rightarrow> world \<Rightarrow> world option" where
  "cleanup_recording r w =
     (case (case recording_pid r of
              None \<Rightarrow> Some w
            | Some pid \<Rightarrow> if pid = 0 then Some w else kill_recording r pid w) of
        None \<Rightarrow> None
      | Some w1 \<Rightarrow> Some (emit Pkill w1))"

text \<open>\<open>subprocess.run(cmd, check=True)\<close> raises on a non-zero exit code.\<close>

definition subprocess_run :: "bool \<Rightarrow> run_outcome \<Rightarrow> run_result" where
  "subprocess_run check out =
     (case out of
        Exited rc \<Rightarrow> if check \<and> rc \<noteq> 0 then CalledProcessError rc else Completed rc
      | KeyboardInterrupt \<Rightarrow> RaisedKeyboardInterrupt
      | OtherException \<Rightarrow> RaisedException)"

text \<open>
  The capture script is run with the track, the destination, the expected duration and,
  when \<open>verbose\<close>, a fourth argument: the event \<open>RunSpotdl\<close> carries the four.
\<close>

definition run_spotdl ::
  "recorder \<Rightarrow> string \<Rightarrow> string \<Rightarrow> int \<Rightarrow> world \<Rightarrow> (run_result \<times> world) option" where
  "run_spotdl r uri filepath expected_duration_s w =
     (case runs w of
        [] \<Rightarrow> None
      | out # rest \<Rightarrow>
          Some (subprocess_run True out,
                emit (RunSpotdl uri filepath expected_duration_s (r_verbose r))
                  (w\<lparr>runs := rest\<rparr>)))"

definition record_track_simple ::
  "recorder \<Rightarrow> string \<Rightarrow> string \<Rightarrow> int \<Rightarrow> world \<Rightarrow> (bool \<times> world) option" where
  "record_track_simple r uri filepath expected_duration_s w =
     (case run_spotdl r uri filepath expected_duration_s
             (emit_if (r_verbose r) (DOK (StartingRecordingFor uri)) w) of
        None \<Rightarrow> None
      | Some (Completed returncode, w1) \<Rightarrow>
          if returncode \<noteq> 0 then
            Some (False, emit (DERROR (RecordingProcessExited returncode)) w1)
          else
            (case files w1 filepath of
               None \<Rightarrow> Some (False, emit (DERROR (OutputFileNotCreated filepath)) w1)
             | Some file_size \<Rightarrow>
                 let min_expected_size = expected_duration_s * 20 * 1024 in
                 if int file_size < min_expected_size then
                   Some (False,
                         emit (DERROR (OutputFileTooSmall file_size min_expected_size)) w1)
                 else
                   Some (True,
                         emit_if (r_verbose r) (DOK (RecordingCompleted filepath file_size)) w1))
      | Some (CalledProcessError _, w1) \<Rightarrow> Some (False, emit (DERROR RecordingFailed) w1)
      | Some (RaisedKeyboardInterrupt, w1) \<Rightarrow>
          (case cleanup_recording r (emit (DERROR RecordingInterrupted) w1) of
             None \<Rightarrow> None
           | Some w2 \<Rightarrow> Some (False, w2))
      | Some (RaisedException, w1) \<Rightarrow>
          (case cleanup_recording r (emit (DERROR UnexpectedErrorDuringRecording) w1) of
             None \<Rightarrow> None
           | Some w2 \<Rightarrow> Some (False, w2)))"

section \<open>Observations, the words of the specification, concrete inputs\<close>

text \<open>A world with no answers left and nothing done yet, and a snapshot with an item.\<close>

definition world0 :: world where
  "world0 = \<lparr>times = [], playbacks = [], device_lists = [], start_playbacks = [], popens = [],
     runs = [], kills = [], files = Map.empty, trace = []\<rparr>"

definition snapshot :: "string \<Rightarrow> bool \<Rightarrow> int \<Rightarrow> int \<Rightarrow> playback" where
  "snapshot u playing progress duration =
     \<lparr>item = Some \<lparr>item_uri = u, item_id = ''id-'' @ u, item_duration_ms = duration\<rparr>,
      is_playing = Some playing, progress_ms = Some progress\<rparr>"

lemmas world_defs =
  emit_def emit_if_def sleep_def time_time_def sp_current_playback_def
  sp_devices_def sp_start_playback_def subprocess_Popen_def os_kill_def

lemmas monitor_defs =
  get_playback_state_def playing_item_def get_is_playing_def get_progress_ms_def
  wait_for_track_start_def wait_for_position_reset_def get_remaining_time_def
  PlaybackMonitor_init_def

lemmas recorder_defs =
  SpotifyRecorder_init_def device_wait_def ensure_spotify_device_active_def
  wait_before_retry_def attempt_raised_def py_range_def start_playback_web_api_def
  kill_recording_def cleanup_recording_def subprocess_run_def run_spotdl_def
  record_track_simple_def py_int_def

lemmas fixture_defs = world0_def snapshot_def

text \<open>
  Observations on a trace: the play commands issued so far, and the runs of
  \<open>_cleanup_recording\<close> so far (each run ends with exactly one \<open>pkill\<close>, which
  nothing else issues).
\<close>

fun is_play_command :: "event \<Rightarrow> bool" where
  "is_play_command (SpStartPlayback uris position_ms) = True"
| "is_play_command e = False"

definition issued :: "world \<Rightarrow> nat" where
  "issued w = length (filter is_play_command (trace w))"

definition cleanups :: "world \<Rightarrow> nat" where
  "cleanups w = count_list (trace w) Pkill"

text \<open>
  What a verification snapshot of \<open>start_playback_web_api\<close> shows, in the words of
  the specification: the wrong track (an item with another URI), or the requested track
  playing.
\<close>

definition wrong_track :: "string \<Rightarrow> playback option outcome \<Rightarrow> bool" where
  "wrong_track uri c =
     (case c of
        Raises \<Rightarrow> False
      | Returns current \<Rightarrow>
          (case playing_item current of None \<Rightarrow> False | Some (p, it) \<Rightarrow> item_uri it \<noteq> uri))"

definition verified :: "string \<Rightarrow> playback option outcome \<Rightarrow> bool" where
  "verified uri c =
     (case c of
        Raises \<Rightarrow> False
      | Returns current \<Rightarrow>
          (case playing_item current of
             None \<Rightarrow> False
           | Some (p, it) \<Rightarrow> item_uri it = uri \<and> get_is_playing p))"

text \<open>A world in which the player starts and the first enumeration lists a device.\<close>

definition device_ready :: world where
  "device_ready =
     world0\<lparr>times := [0, 0.1], popens := [True], device_lists := [Returns [''Desktop'']]\<rparr>"

text \<open>
  The words of the specification about \<open>waitForTrackStart\<close>. \<open>fetched\<close> is the
  snapshot a poll observes (a failed fetch counts as no snapshot); \<open>track_started\<close> is
  the success condition (the expected URI, playing, progress within the start-detection
  window of 2000 ms); \<open>polled_before_timeout\<close> are the snapshots of the polls made
  while the clock, read before each poll, is within the timeout; \<open>timeout_elapses\<close>
  says that the clock readings reach the timeout and every poll before that is answered.
\<close>

definition fetched :: "playback option outcome \<Rightarrow> playback option" where
  "fetched c = (case c of Raises \<Rightarrow> None | Returns pb \<Rightarrow> pb)"

definition track_started :: "string \<Rightarrow> playback option \<Rightarrow> bool" where
  "track_started expected_uri pb =
     (case playing_item pb of
        None \<Rightarrow> False
      | Some (p, it) \<Rightarrow>
          item_uri it = expected_uri \<and> get_is_playing p \<and> get_progress_ms p < 2000)"

definition polls_within :: "real \<Rightarrow> int \<Rightarrow> real list \<Rightarrow> nat" where
  "polls_within start_time timeout ts =
     length (takeWhile (\<lambda>t. t - start_time < real_of_int timeout) ts)"

definition polled_before_timeout ::
  "real \<Rightarrow> int \<Rightarrow> real list \<Rightarrow> playback option outcome list \<Rightarrow> playback option list" where
  "polled_before_timeout start_time timeout ts cs =
     map fetched (take (polls_within start_time timeout ts) cs)"

definition timeout_elapses ::
  "real \<Rightarrow> int \<Rightarrow> real list \<Rightarrow> playback option outcome list \<Rightarrow> bool" where
  "timeout_elapses start_time timeout ts cs =
     (polls_within start_time timeout ts < length ts
      \<and> polls_within start_time timeout ts \<le> length cs)"

text \<open>A monitor that has recorded the track \<open>u\<close>.\<close>

definition tracking :: "string \<Rightarrow> monitor" where
  "tracking u =
     (PlaybackMonitor_init 0.5 False)
       \<lparr>current_track_id := Some (''id-'' @ u), current_track_uri := Some u\<rparr>"

section \<open>Remaining time\<close>

text \<open>
  C5 (as stated, refuted). The claim says that \<open>get_remaining_time\<close> never returns a
  negative remaining time when the progress has reached the duration. For a snapshot
  with a duration of 1000 ms and a progress of 1500 ms it returns \<open>-500\<close>.
\<close>

theorem get_remaining_time_negative:
  "map_option fst
     (get_remaining_time (PlaybackMonitor_init 0.5 False)
        (world0\<lparr>playbacks := [Returns (Some (snapshot ''X'' True 1500 1000))]\<rparr>))
   = Some (Some (- 500))"
  by (simp add: world_defs monitor_defs fixture_defs)

text \<open>
  C5 (amended). For every snapshot with an item whose progress has reached or passed
  the duration, \<open>get_remaining_time\<close> returns a value (it does not fail), and the
  value is the plain difference \<open>duration_ms - progress_ms\<close>, which is zero or
  negative: nothing is clamped or ignored.
\<close>

theorem get_remaining_time_difference:
  assumes "playbacks w = Returns (Some p) # rest" and "item p = Some it"
    and "progress_ms p = Some progress" and "item_duration_ms it \<le> progress"
  shows "\<exists>remaining. map_option fst (get_remaining_time m w) = Some (Some remaining)
           \<and> remaining = item_duration_ms it - progress \<and> remaining \<le> 0"
  using assms by (simp add: world_defs monitor_defs)

theorem get_remaining_time_difference_witness:
  "\<exists>remaining. map_option fst
      (get_remaining_time (PlaybackMonitor_init 0.5 False)
        (world0\<lparr>playbacks := [Returns (Some (snapshot ''X'' True 1000 1000))]\<rparr>))
      = Some (Some remaining) \<and> remaining = 1000 - 1000 \<and> remaining \<le> 0"
proof -
  let ?p = "snapshot ''X'' True 1000 1000"
  let ?w = "world0\<lparr>playbacks := [Returns (Some ?p)]\<rparr>"
  have h1: "playbacks ?w = Returns (Some ?p) # []" by simp
  have h2: "item ?p = Some \<lparr>item_uri = ''X'', item_id = ''id-X'', item_duration_ms = 1000\<rparr>"
    by (simp add: snapshot_def)
  have h3: "progress_ms ?p = Some 1000" by (simp add: snapshot_def)
  show ?thesis
    using get_remaining_time_difference [OF h1 h2 h3, of "PlaybackMonitor_init 0.5 False"]
    by simp
qed

section \<open>Track change with no track recorded\<close>

text \<open>
  C10. When \<open>current_track_uri\<close> is unset and the first poll reports an item,
  \<open>monitor_until_track_change\<close> treats it as a change: after the one fetch (and the
  message when \<open>verbose\<close>) it calls the hook once, with the URI of that snapshot and
  the snapshot, and returns that URI; the monitor is left as it was.
\<close>

theorem monitor_until_track_change_unset:
  assumes "current_track_uri m = None"
    and "playbacks w = Returns (Some p) # rest" and "item p = Some it"
  shows "monitor_until_track_change m (Some h) w =
           Some (Some (item_uri it), m,
                 w\<lparr>playbacks := rest,
                   trace := trace w @ [SpCurrentPlayback]
                     @ (if verbose m then [DINFO (TrackChanged None (item_uri it))] else [])
                     @ [OnChange h (item_uri it) p]\<rparr>)"
  using assms by (simp add: world_defs monitor_defs)

theorem monitor_until_track_change_unset_witness:
  "monitor_until_track_change (PlaybackMonitor_init 0.5 False) (Some 7)
     (world0\<lparr>playbacks := [Returns (Some (snapshot ''Y'' False 90000 200000))]\<rparr>) =
   Some (Some ''Y'', PlaybackMonitor_init 0.5 False,
         world0\<lparr>trace := [SpCurrentPlayback,
                           OnChange 7 ''Y'' (snapshot ''Y'' False 90000 200000)]\<rparr>)"
proof -
  let ?m = "PlaybackMonitor_init 0.5 False"
  let ?p = "snapshot ''Y'' False 90000 200000"
  let ?w = "world0\<lparr>playbacks := [Returns (Some ?p)]\<rparr>"
  have h0: "current_track_uri ?m = None" by (simp add: PlaybackMonitor_init_def)
  have h1: "playbacks ?w = Returns (Some ?p) # []" by simp
  have h2: "item ?p = Some \<lparr>item_uri = ''Y'', item_id = ''id-Y'', item_duration_ms = 200000\<rparr>"
    by (simp add: snapshot_def)
  show ?thesis
    using monitor_until_track_change_unset [OF h0 h1 h2, of 7]
    by (simp add: PlaybackMonitor_init_def world0_def)
qed

section \<open>The size check of the recording\<close>

text \<open>
  C2 (as stated, refuted). The claim puts the threshold for an expected duration of
  180 s at 3,600,000 bytes. An artifact of exactly 3,600,000 bytes, with exit code 0
  and the file present, is rejected as too small: the threshold the code computes is
  \<open>180 * 20 * 1024 = 3686400\<close>.
\<close>

theorem record_track_simple_3600000_too_small:
  "map_option (\<lambda>(ok, w'). (ok, trace w'))
     (record_track_simple (SpotifyRecorder_init False) ''spotify:track:X'' ''out.flac'' 180
        (world0\<lparr>runs := [Exited 0], files := [''out.flac'' \<mapsto> 3600000]\<rparr>))
   = Some (False, [RunSpotdl ''spotify:track:X'' ''out.flac'' 180 False,
                   DERROR (OutputFileTooSmall 3600000 3686400)])"
  by (simp add: world_defs recorder_defs fixture_defs)

text \<open>
  C2 (amended). For an expected duration of 180 s, exit code 0 and an existing output
  file, the recording succeeds exactly when the file has at least 3,686,400 bytes
  (20 * 1024 bytes per second); a smaller file ends in the too-small error. The witness
  instantiates this at 3,000,000 bytes (failure) and 4,000,000 bytes (success).
\<close>

theorem record_track_simple_threshold_180:
  assumes "runs w = Exited 0 # rest" and "files w filepath = Some file_size"
  shows "\<exists>w'. record_track_simple r uri filepath 180 w = Some (3686400 \<le> file_size, w')
           \<and> (file_size < 3686400 \<longrightarrow>
                last (trace w') = DERROR (OutputFileTooSmall file_size 3686400))"
  using assms by (simp add: world_defs recorder_defs)

theorem record_track_simple_threshold_180_witness:
  "(\<exists>w'. record_track_simple (SpotifyRecorder_init False) ''spotify:track:X'' ''out.flac'' 180
           (world0\<lparr>runs := [Exited 0], files := [''out.flac'' \<mapsto> 3000000]\<rparr>) = Some (False, w')
         \<and> last (trace w') = DERROR (OutputFileTooSmall 3000000 3686400))
   \<and> (\<exists>w'. record_track_simple (SpotifyRecorder_init False) ''spotify:track:X'' ''out.flac'' 180
           (world0\<lparr>runs := [Exited 0], files := [''out.flac'' \<mapsto> 4000000]\<rparr>) = Some (True, w'))"
proof -
  let ?r = "SpotifyRecorder_init False"
  let ?small = "world0\<lparr>runs := [Exited 0], files := [''out.flac'' \<mapsto> 3000000]\<rparr>"
  let ?large = "world0\<lparr>runs := [Exited 0], files := [''out.flac'' \<mapsto> 4000000]\<rparr>"
  have s1: "runs ?small = Exited 0 # []" and s2: "files ?small ''out.flac'' = Some 3000000"
    by simp_all
  have l1: "runs ?large = Exited 0 # []" and l2: "files ?large ''out.flac'' = Some 4000000"
    by simp_all
  show ?thesis
    using record_track_simple_threshold_180 [OF s1 s2, of ?r "''spotify:track:X''"]
      record_track_simple_threshold_180 [OF l1 l2, of ?r "''spotify:track:X''"]
    by simp
qed

section \<open>Cleanup after a failed recording\<close>


lemma cleanups_emit: "cleanups (emit e w) = cleanups w + (if e = Pkill then 1 else 0)"
  by (simp add: cleanups_def emit_def)




section \<open>Launching the player\<close>

text \<open>
  Effects of the device loop and of \<open>ensure_spotify_device_active\<close> on the parts of
  the world they do not use.
\<close>

lemma time_time_frame:
  "time_time w = Some (t, w1) \<Longrightarrow>
     trace w1 = trace w \<and> playbacks w1 = playbacks w \<and> start_playbacks w1 = start_playbacks w
     \<and> length (times w1) < length (times w)"
  by (auto simp: time_time_def split: list.splits)

lemma sp_devices_frame:
  "sp_devices w = Some (res, w1) \<Longrightarrow>
     trace w1 = trace w @ [SpDevices] \<and> playbacks w1 = playbacks w
     \<and> start_playbacks w1 = start_playbacks w \<and> times w1 = times w"
  by (auto simp: sp_devices_def emit_def split: list.splits)

lemma wait_for_device_frame:
  "wait_for_device r max_wait start_time w = Some (b, w') \<Longrightarrow>
     (\<exists>tl. trace w' = trace w @ tl) \<and> issued w' = issued w
     \<and> playbacks w' = playbacks w \<and> start_playbacks w' = start_playbacks w"
proof (induction "length (times w)" arbitrary: w rule: less_induct)
  case less
  note prems = less.prems
  from prems obtain t w1 where tt: "time_time w = Some (t, w1)"
    by (subst (asm) wait_for_device.simps) (auto split: option.splits)
  note w1 = time_time_frame [OF tt]
  show ?case
  proof (cases "t - start_time < real_of_int max_wait")
    case False
    with prems tt have "w' = emit (DERROR NoSpotifyDeviceFound) w1"
      by (subst (asm) wait_for_device.simps) simp
    with w1 show ?thesis by (simp add: emit_def issued_def)
  next
    case True
    from prems tt True obtain res w2 where sd: "sp_devices w1 = Some (res, w2)"
      by (subst (asm) wait_for_device.simps) (auto split: option.splits)
    note w2 = sp_devices_frame [OF sd]
    show ?thesis
    proof (cases res)
      case (Returns devs)
      show ?thesis
      proof (cases "devs = []")
        case False
        with prems tt True sd Returns
        have "w' = emit_if (r_verbose r) (DOK (FoundSpotifyDevices devs)) w2"
          by (subst (asm) wait_for_device.simps) simp
        with w1 w2 show ?thesis by (simp add: emit_if_def emit_def issued_def)
      next
        case devs: True
        with prems tt True sd Returns
        have rec: "wait_for_device r max_wait start_time (sleep 1 w2) = Some (b, w')"
          by (subst (asm) wait_for_device.simps) simp
        have "length (times (sleep 1 w2)) < length (times w)"
          using w1 w2 by simp
        from less.hyps [OF this rec] show ?thesis
          using w1 w2 by (auto simp: sleep_def emit_def issued_def)
      qed
    next
      case Raises
      show ?thesis
      proof (cases "r_verbose r")
        case False
        with prems tt True sd Raises
        have rec: "wait_for_device r max_wait start_time (sleep 1 w2) = Some (b, w')"
          by (subst (asm) wait_for_device.simps) simp
        have "length (times (sleep 1 w2)) < length (times w)"
          using w1 w2 by simp
        from less.hyps [OF this rec] show ?thesis
          using w1 w2 by (auto simp: sleep_def emit_def issued_def)
      next
        case v: True
        with prems tt True sd Raises obtain t2 w3 where
          t2: "time_time w2 = Some (t2, w3)" and
          rec: "wait_for_device r max_wait start_time
                  (sleep 1 (emit (DINFO (WaitingForSpotifyDevice (py_int (t2 - start_time)))) w3))
                = Some (b, w')"
          by (subst (asm) wait_for_device.simps) (auto split: option.splits)
        note w3 = time_time_frame [OF t2]
        have "length (times (sleep 1
                (emit (DINFO (WaitingForSpotifyDevice (py_int (t2 - start_time)))) w3)))
              < length (times w)"
          using w1 w2 w3 by simp
        from less.hyps [OF this rec] show ?thesis
          using w1 w2 w3 by (auto simp: sleep_def emit_def issued_def)
      qed
    qed
  qed
qed

lemma subprocess_Popen_frame:
  "subprocess_Popen cmd w = Some (ok, w1) \<Longrightarrow>
     trace w1 = trace w @ [Popen cmd] \<and> playbacks w1 = playbacks w
     \<and> start_playbacks w1 = start_playbacks w"
  by (auto simp: subprocess_Popen_def emit_def split: list.splits)

lemma device_wait_frame:
  assumes "device_wait r max_wait w = Some (b, w')"
  shows "(\<exists>tl. trace w' = trace w @ tl) \<and> issued w' = issued w
     \<and> playbacks w' = playbacks w \<and> start_playbacks w' = start_playbacks w"
proof -
  from assms obtain s w1 where tt: "time_time w = Some (s, w1)"
    and wd: "wait_for_device r max_wait s w1 = Some (b, w')"
    by (auto simp: device_wait_def split: option.splits)
  from time_time_frame [OF tt] wait_for_device_frame [OF wd] show ?thesis
    by (simp add: issued_def)
qed

text \<open>The launch comes first, whatever the devices are.\<close>

lemma ensure_spotify_device_active_frame:
  assumes "ensure_spotify_device_active r max_wait w = Some (b, w')"
  shows "(\<exists>tl. trace w' = trace w @ (if r_verbose r then [DINFO StartingClient] else [])
                   @ Popen [''spotify''] # tl)
     \<and> issued w' = issued w
     \<and> playbacks w' = playbacks w \<and> start_playbacks w' = start_playbacks w"
proof -
  let ?w0 = "emit_if (r_verbose r) (DINFO StartingClient) w"
  have w0: "trace ?w0 = trace w @ (if r_verbose r then [DINFO StartingClient] else [])"
    "playbacks ?w0 = playbacks w" "start_playbacks ?w0 = start_playbacks w"
    by (simp_all add: emit_if_def emit_def)
  from assms obtain ok1 w1 where p1: "subprocess_Popen [''spotify''] ?w0 = Some (ok1, w1)"
    by (auto simp: ensure_spotify_device_active_def split: option.splits)
  note w1 = subprocess_Popen_frame [OF p1]
  show ?thesis
  proof (cases ok1)
    case True
    with assms p1 have "device_wait r max_wait w1 = Some (b, w')"
      by (simp add: ensure_spotify_device_active_def)
    from device_wait_frame [OF this] w0 w1 show ?thesis
      by (auto simp: issued_def)
  next
    case False
    with assms p1 obtain ok2 w2 where
      p2: "subprocess_Popen [''/snap/bin/spotify''] w1 = Some (ok2, w2)"
      by (auto simp: ensure_spotify_device_active_def split: option.splits)
    note w2 = subprocess_Popen_frame [OF p2]
    show ?thesis
    proof (cases ok2)
      case True
      with assms p1 p2 False have "device_wait r max_wait w2 = Some (b, w')"
        by (simp add: ensure_spotify_device_active_def)
      from device_wait_frame [OF this] w0 w1 w2 show ?thesis
        by (auto simp: issued_def)
    next
      case ok2: False
      with assms p1 p2 False have "w' = emit (DERROR FailedToStartSpotify) w2"
        by (simp add: ensure_spotify_device_active_def)
      with w0 w1 w2 show ?thesis
        by (auto simp: issued_def emit_def)
    qed
  qed
qed

text \<open>
  C6 (as stated, refuted). The claim says that the player is launched only when no
  device can be enumerated. In a world whose first enumeration lists a device, the
  player is launched all the same, and before anything is enumerated.
\<close>

theorem ensure_spotify_device_active_launches_with_device:
  "map_option (\<lambda>(ok, w'). (ok, trace w'))
     (ensure_spotify_device_active (SpotifyRecorder_init False) 15
        (world0\<lparr>times := [0, 0.1], popens := [True],
                device_lists := [Returns [''Desktop'']]\<rparr>))
   = Some (True, [Popen [''spotify''], SpDevices])"
  by (simp add: world_defs recorder_defs fixture_defs)

text \<open>
  C6 (amended). \<open>ensure_spotify_device_active\<close> launches the player unconditionally:
  whenever it returns, its first effect (after the message when \<open>verbose\<close>) is the
  launch, before any enumeration of devices. When both launch attempts fail it returns
  \<open>False\<close> at once: no device is enumerated and the clock is not read.
\<close>

theorem ensure_spotify_device_active_launch:
  "(\<forall>b w'. ensure_spotify_device_active r max_wait w = Some (b, w') \<longrightarrow>
      (\<exists>tl. trace w' = trace w @ (if r_verbose r then [DINFO StartingClient] else [])
                @ Popen [''spotify''] # tl))
   \<and> (\<forall>rest. popens w = False # False # rest \<longrightarrow>
        ensure_spotify_device_active r max_wait w =
          Some (False,
                w\<lparr>popens := rest,
                  trace := trace w @ (if r_verbose r then [DINFO StartingClient] else [])
                    @ [Popen [''spotify''], Popen [''/snap/bin/spotify''],
                       DERROR FailedToStartSpotify]\<rparr>))"
proof (intro conjI allI impI)
  fix b w' assume "ensure_spotify_device_active r max_wait w = Some (b, w')"
  from ensure_spotify_device_active_frame [OF this]
  show "\<exists>tl. trace w' = trace w @ (if r_verbose r then [DINFO StartingClient] else [])
                @ Popen [''spotify''] # tl"
    by blast
next
  fix rest assume "popens w = False # False # rest"
  then show "ensure_spotify_device_active r max_wait w =
          Some (False,
                w\<lparr>popens := rest,
                  trace := trace w @ (if r_verbose r then [DINFO StartingClient] else [])
                    @ [Popen [''spotify''], Popen [''/snap/bin/spotify''],
                       DERROR FailedToStartSpotify]\<rparr>)"
    by (simp add: world_defs recorder_defs)
qed

theorem ensure_spotify_device_active_launch_witness:
  "(\<exists>w' tl. ensure_spotify_device_active (SpotifyRecorder_init False) 15
        (world0\<lparr>times := [0, 0.1], popens := [True],
                device_lists := [Returns [''Desktop'']]\<rparr>) = Some (True, w')
        \<and> trace w' = Popen [''spotify''] # tl)
   \<and> ensure_spotify_device_active (SpotifyRecorder_init False) 15
        (world0\<lparr>popens := [False, False], device_lists := [Returns [''Desktop'']]\<rparr>)
      = Some (False,
              world0\<lparr>device_lists := [Returns [''Desktop'']],
                     trace := [Popen [''spotify''], Popen [''/snap/bin/spotify''],
                               DERROR FailedToStartSpotify]\<rparr>)"
proof -
  let ?r = "SpotifyRecorder_init False"
  let ?w = "world0\<lparr>times := [0, 0.1], popens := [True],
                    device_lists := [Returns [''Desktop'']]\<rparr>"
  let ?w' = "world0\<lparr>trace := [Popen [''spotify''], SpDevices]\<rparr>"
  let ?v = "world0\<lparr>popens := [False, False], device_lists := [Returns [''Desktop'']]\<rparr>"
  have run: "ensure_spotify_device_active ?r 15 ?w = Some (True, ?w')"
    by (simp add: world_defs recorder_defs fixture_defs)
  have pop: "popens ?v = False # False # []" by simp
  have quiet: "\<not> r_verbose ?r" by (simp add: SpotifyRecorder_init_def)
  show ?thesis
    using ensure_spotify_device_active_launch [of ?r 15 ?w] run
      ensure_spotify_device_active_launch [of ?r 15 ?v] pop quiet
    by (simp add: world0_def)
qed

section \<open>Starting playback\<close>

text \<open>One pass of the retry loop, for each way its verification can end.\<close>

lemma py_range_3: "py_range 3 = [0, 1, 2]"
  by (simp add: py_range_def eval_nat_numeral upt_rec)

lemma issued_emit:
  "issued (emit e w) = issued w + (if is_play_command e then 1 else 0)"
  by (simp add: issued_def emit_def)

lemma issued_emit_if:
  "issued (emit_if b e w) = issued w + (if b \<and> is_play_command e then 1 else 0)"
  by (simp add: emit_if_def issued_emit)

lemma issued_update [simp]:
  "issued (w\<lparr>playbacks := ps\<rparr>) = issued w"
  "issued (w\<lparr>start_playbacks := ss\<rparr>) = issued w"
  by (simp_all add: issued_def)

lemma attempts_unverified_step:
  assumes "start_playbacks w = Returns () # ss" and "playbacks w = c # ps"
    and "\<not> verified uri c"
  shows "\<exists>w1. attempts r uri n (a # rest) w = attempts r uri n rest w1
           \<and> start_playbacks w1 = ss \<and> playbacks w1 = ps \<and> issued w1 = issued w + 1"
proof -
  let ?w1 = "emit (SpStartPlayback [uri] 0)
      (emit_if (r_verbose r) (DINFO (StartingPlaybackViaWebApi (a + 1) n uri)) w
         \<lparr>start_playbacks := ss\<rparr>)"
  let ?w2 = "emit SpCurrentPlayback ((sleep 2 ?w1)\<lparr>playbacks := ps\<rparr>)"
  have s1: "sp_start_playback [uri] 0
      (emit_if (r_verbose r) (DINFO (StartingPlaybackViaWebApi (a + 1) n uri)) w)
      = Some (Returns (), ?w1)"
    using assms(1) by (simp add: sp_start_playback_def emit_if_def emit_def)
  have s2: "sp_current_playback (sleep 2 ?w1) = Some (c, ?w2)"
    using assms(2) by (simp add: sp_current_playback_def emit_if_def emit_def sleep_def)
  have q: "start_playbacks ?w2 = ss" "playbacks ?w2 = ps" "issued ?w2 = issued w + 1"
    by (simp_all add: issued_def emit_if_def emit_def sleep_def)
  show ?thesis
  proof (cases c)
    case Raises
    let ?w3 = "attempt_raised r a n ?w2"
    have "attempts r uri n (a # rest) w = attempts r uri n rest ?w3"
      using s1 s2 Raises by simp
    moreover have "start_playbacks ?w3 = ss \<and> playbacks ?w3 = ps \<and> issued ?w3 = issued w + 1"
      using q by (simp add: attempt_raised_def wait_before_retry_def issued_def emit_if_def
          emit_def sleep_def)
    ultimately show ?thesis by blast
  next
    case (Returns current)
    show ?thesis
    proof (cases "playing_item current")
      case None
      let ?w3 = "emit_if (r_verbose r) (DERROR NoPlaybackStateAvailable) ?w2"
      have "attempts r uri n (a # rest) w = attempts r uri n rest ?w3"
        using s1 s2 Returns None by simp
      moreover have "start_playbacks ?w3 = ss \<and> playbacks ?w3 = ps \<and> issued ?w3 = issued w + 1"
        using q by (simp add: issued_def emit_if_def emit_def sleep_def)
      ultimately show ?thesis by blast
    next
      case (Some pi)
      obtain p it where pi: "pi = (p, it)" by (cases pi)
      with assms Returns Some have nv: "\<not> (item_uri it = uri \<and> get_is_playing p)"
        by (simp add: verified_def)
      let ?w3 = "wait_before_retry a n
                   (emit_if (r_verbose r) (DERROR (WrongTrackPlaying uri (item_uri it))) ?w2)"
      have "attempts r uri n (a # rest) w = attempts r uri n rest ?w3"
        using s1 s2 Returns Some pi nv by (cases "item_uri it = uri") simp_all
      moreover have "start_playbacks ?w3 = ss \<and> playbacks ?w3 = ps \<and> issued ?w3 = issued w + 1"
        using q by (simp add: wait_before_retry_def issued_def emit_if_def emit_def sleep_def)
      ultimately show ?thesis by blast
    qed
  qed
qed

lemma attempts_verified_step:
  assumes "start_playbacks w = Returns () # ss" and "playbacks w = c # ps"
    and "verified uri c"
  shows "\<exists>w1. attempts r uri n (a # rest) w = Some (True, w1) \<and> issued w1 = issued w + 1"
proof -
  let ?w1 = "emit (SpStartPlayback [uri] 0)
      (emit_if (r_verbose r) (DINFO (StartingPlaybackViaWebApi (a + 1) n uri)) w
         \<lparr>start_playbacks := ss\<rparr>)"
  let ?w2 = "emit SpCurrentPlayback ((sleep 2 ?w1)\<lparr>playbacks := ps\<rparr>)"
  have s1: "sp_start_playback [uri] 0
      (emit_if (r_verbose r) (DINFO (StartingPlaybackViaWebApi (a + 1) n uri)) w)
      = Some (Returns (), ?w1)"
    using assms(1) by (simp add: sp_start_playback_def emit_if_def emit_def)
  have s2: "sp_current_playback (sleep 2 ?w1) = Some (c, ?w2)"
    using assms(2) by (simp add: sp_current_playback_def emit_if_def emit_def sleep_def)
  have q: "issued ?w2 = issued w + 1"
    by (simp_all add: issued_def emit_if_def emit_def sleep_def)
  from assms(3) obtain current p it where c: "c = Returns current"
    and pi: "playing_item current = Some (p, it)"
    and ok: "item_uri it = uri \<and> get_is_playing p"
    by (auto simp: verified_def split: outcome.splits option.splits)
  let ?w3 = "emit_if (r_verbose r) (DOK (TrackVerifiedPlaying uri (get_progress_ms p))) ?w2"
  have "attempts r uri n (a # rest) w = Some (True, ?w3)"
    using s1 s2 c pi ok by simp
  moreover have "issued ?w3 = issued w + 1"
    using q by (simp add: issued_def emit_if_def emit_def sleep_def)
  ultimately show ?thesis by blast
qed

lemma attempts_exhausted:
  "\<exists>w1. attempts r uri n [] w = Some (False, w1) \<and> issued w1 = issued w"
  by (simp add: issued_def emit_def)

lemma wrong_track_unverified: "wrong_track uri c \<Longrightarrow> \<not> verified uri c"
  by (auto simp: wrong_track_def verified_def split: outcome.splits option.splits)

lemma attempts_three_wrong:
  assumes "start_playbacks w = Returns () # Returns () # Returns () # ss"
    and "playbacks w = c1 # c2 # c3 # ps"
    and "wrong_track uri c1" and "wrong_track uri c2" and "wrong_track uri c3"
  shows "\<exists>w'. attempts r uri 3 [0, 1, 2] w = Some (False, w') \<and> issued w' = issued w + 3"
proof -
  from attempts_unverified_step [OF assms(1,2) wrong_track_unverified [OF assms(3)]]
  obtain w1 where 1: "attempts r uri 3 [0, 1, 2] w = attempts r uri 3 [1, 2] w1"
    and s1: "start_playbacks w1 = Returns () # Returns () # ss"
    and p1: "playbacks w1 = c2 # c3 # ps" and i1: "issued w1 = issued w + 1"
    by blast
  from attempts_unverified_step [OF s1 p1 wrong_track_unverified [OF assms(4)]]
  obtain w2 where 2: "attempts r uri 3 [1, 2] w1 = attempts r uri 3 [2] w2"
    and s2: "start_playbacks w2 = Returns () # ss"
    and p2: "playbacks w2 = c3 # ps" and i2: "issued w2 = issued w1 + 1"
    by blast
  from attempts_unverified_step [OF s2 p2 wrong_track_unverified [OF assms(5)]]
  obtain w3 where 3: "attempts r uri 3 [2] w2 = attempts r uri 3 [] w3"
    and i3: "issued w3 = issued w2 + 1"
    by blast
  from attempts_exhausted [of r uri 3 w3]
  obtain w4 where 4: "attempts r uri 3 [] w3 = Some (False, w4)" and i4: "issued w4 = issued w3"
    by blast
  from 1 2 3 4 i1 i2 i3 i4 show ?thesis by simp
qed

lemma attempts_second_verified:
  assumes "start_playbacks w = Returns () # Returns () # ss"
    and "playbacks w = c1 # c2 # ps"
    and "\<not> verified uri c1" and "verified uri c2"
  shows "\<exists>w'. attempts r uri 3 [0, 1, 2] w = Some (True, w') \<and> issued w' = issued w + 2"
proof -
  from attempts_unverified_step [OF assms(1,2,3)]
  obtain w1 where 1: "attempts r uri 3 [0, 1, 2] w = attempts r uri 3 [1, 2] w1"
    and s1: "start_playbacks w1 = Returns () # ss"
    and p1: "playbacks w1 = c2 # ps" and i1: "issued w1 = issued w + 1"
    by blast
  from attempts_verified_step [OF s1 p1 assms(4)]
  obtain w2 where 2: "attempts r uri 3 [1, 2] w1 = Some (True, w2)"
    and i2: "issued w2 = issued w1 + 1"
    by blast
  from 1 2 i1 i2 show ?thesis by simp
qed


text \<open>
  C8. With \<open>max_retries = 3\<close>, a device found and play commands that are accepted:
  when each of the three verification snapshots shows the wrong track, exactly three
  play commands are issued and the result is failure; when the first verification does
  not succeed (for whatever reason) and the second does, exactly two play commands are
  issued and the result is success.
\<close>

theorem start_playback_web_api_issuances:
  assumes "ensure_spotify_device_active r 15 w = Some (True, w1)"
  shows "(\<forall>c1 c2 c3 ss ps.
            start_playbacks w = Returns () # Returns () # Returns () # ss
            \<and> playbacks w = c1 # c2 # c3 # ps
            \<and> wrong_track uri c1 \<and> wrong_track uri c2 \<and> wrong_track uri c3 \<longrightarrow>
            (\<exists>w'. start_playback_web_api r uri 3 w = Some (False, w')
                  \<and> issued w' = issued w + 3))
       \<and> (\<forall>c1 c2 ss ps.
            start_playbacks w = Returns () # Returns () # ss
            \<and> playbacks w = c1 # c2 # ps
            \<and> \<not> verified uri c1 \<and> verified uri c2 \<longrightarrow>
            (\<exists>w'. start_playback_web_api r uri 3 w = Some (True, w')
                  \<and> issued w' = issued w + 2))"
proof -
  note fr = ensure_spotify_device_active_frame [OF assms]
  have run: "start_playback_web_api r uri 3 w = attempts r uri 3 [0, 1, 2] w1"
    using assms by (simp add: start_playback_web_api_def py_range_3)
  show ?thesis
  proof (intro conjI allI impI)
    fix c1 c2 c3 ss ps
    assume h: "start_playbacks w = Returns () # Returns () # Returns () # ss
            \<and> playbacks w = c1 # c2 # c3 # ps
            \<and> wrong_track uri c1 \<and> wrong_track uri c2 \<and> wrong_track uri c3"
    then have s: "start_playbacks w1 = Returns () # Returns () # Returns () # ss"
      and p: "playbacks w1 = c1 # c2 # c3 # ps" using fr by simp_all
    from h have "wrong_track uri c1" "wrong_track uri c2" "wrong_track uri c3" by simp_all
    from attempts_three_wrong [OF s p this, of r] fr run
    show "\<exists>w'. start_playback_web_api r uri 3 w = Some (False, w') \<and> issued w' = issued w + 3"
      by simp
  next
    fix c1 c2 ss ps
    assume h: "start_playbacks w = Returns () # Returns () # ss
            \<and> playbacks w = c1 # c2 # ps \<and> \<not> verified uri c1 \<and> verified uri c2"
    then have s: "start_playbacks w1 = Returns () # Returns () # ss"
      and p: "playbacks w1 = c1 # c2 # ps" using fr by simp_all
    from h have "\<not> verified uri c1" "verified uri c2" by simp_all
    from attempts_second_verified [OF s p this, of r] fr run
    show "\<exists>w'. start_playback_web_api r uri 3 w = Some (True, w') \<and> issued w' = issued w + 2"
      by simp
  qed
qed

lemma device_ready_active:
  "ensure_spotify_device_active (SpotifyRecorder_init False) 15
     (device_ready\<lparr>playbacks := ps, start_playbacks := ss\<rparr>)
   = Some (True, world0\<lparr>playbacks := ps, start_playbacks := ss,
                         trace := [Popen [''spotify''], SpDevices]\<rparr>)"
  by (simp add: world_defs recorder_defs fixture_defs device_ready_def)

lemma start_playback_web_api_device_ready:
  "start_playback_web_api (SpotifyRecorder_init False) uri 3
     (device_ready\<lparr>playbacks := ps, start_playbacks := ss\<rparr>)
   = attempts (SpotifyRecorder_init False) uri 3 [0, 1, 2]
       (world0\<lparr>playbacks := ps, start_playbacks := ss,
              trace := [Popen [''spotify''], SpDevices]\<rparr>)"
  by (simp add: start_playback_web_api_def device_ready_active py_range_3)

theorem start_playback_web_api_issuances_witness:
  "(\<exists>w'. start_playback_web_api (SpotifyRecorder_init False) ''X'' 3
           (device_ready\<lparr>
              playbacks := [Returns (Some (snapshot ''Y'' True 1000 200000)),
                            Returns (Some (snapshot ''Y'' True 3000 200000)),
                            Returns (Some (snapshot ''Y'' True 5000 200000))],
              start_playbacks := [Returns (), Returns (), Returns ()]\<rparr>)
         = Some (False, w') \<and> issued w' = 3)
   \<and> (\<exists>w'. start_playback_web_api (SpotifyRecorder_init False) ''X'' 3
           (device_ready\<lparr>
              playbacks := [Returns (Some (snapshot ''Y'' True 1000 200000)),
                            Returns (Some (snapshot ''X'' True 300 200000))],
              start_playbacks := [Returns (), Returns (), Returns ()]\<rparr>)
         = Some (True, w') \<and> issued w' = 2)"
proof -
  let ?r = "SpotifyRecorder_init False"
  let ?y1 = "Returns (Some (snapshot ''Y'' True 1000 200000))"
  let ?y2 = "Returns (Some (snapshot ''Y'' True 3000 200000))"
  let ?y3 = "Returns (Some (snapshot ''Y'' True 5000 200000))"
  let ?x = "Returns (Some (snapshot ''X'' True 300 200000))"
  let ?ss = "[Returns (), Returns (), Returns ()]"
  let ?wa = "device_ready\<lparr>playbacks := [?y1, ?y2, ?y3], start_playbacks := ?ss\<rparr>"
  let ?wb = "device_ready\<lparr>playbacks := [?y1, ?x], start_playbacks := ?ss\<rparr>"
  have wrong: "wrong_track ''X'' ?y1" "wrong_track ''X'' ?y2" "wrong_track ''X'' ?y3"
    by (simp_all add: wrong_track_def playing_item_def snapshot_def)
  have unverified: "\<not> verified ''X'' ?y1"
    by (simp add: verified_def playing_item_def snapshot_def)
  have verified: "verified ''X'' ?x"
    by (simp add: verified_def playing_item_def get_is_playing_def snapshot_def)
  have zero: "issued ?wa = 0" "issued ?wb = 0"
    by (simp_all add: issued_def device_ready_def world0_def)
  show ?thesis
    using start_playback_web_api_issuances
        [OF device_ready_active [where ps = "[?y1, ?y2, ?y3]" and ss = ?ss], where uri = "''X''"]
      start_playback_web_api_issuances
        [OF device_ready_active [where ps = "[?y1, ?x]" and ss = ?ss], where uri = "''X''"]
      wrong unverified verified zero
    by (simp add: numeral_2_eq_2 numeral_3_eq_3)
qed

text \<open>
  C3 (the code at the failing input). With three attempts allowed and no playback
  state after the first play command, the second play command follows the fetch
  directly: no \<open>Sleep 1\<close> lies between them, though the attempt is not the last.
  With the wrong track reported instead, the wait of one second is there.
\<close>

theorem start_playback_web_api_no_wait_without_state:
  "map_option (\<lambda>(ok, w'). (ok, trace w'))
     (start_playback_web_api (SpotifyRecorder_init False) ''X'' 3
        (device_ready\<lparr>
           playbacks := [Returns None, Returns (Some (snapshot ''X'' True 300 200000))],
           start_playbacks := [Returns (), Returns ()]\<rparr>))
   = Some (True, [Popen [''spotify''], SpDevices,
                  SpStartPlayback [''X''] 0, Sleep 2, SpCurrentPlayback,
                  SpStartPlayback [''X''] 0, Sleep 2, SpCurrentPlayback])
   \<and> map_option (\<lambda>(ok, w'). (ok, trace w'))
     (start_playback_web_api (SpotifyRecorder_init False) ''X'' 3
        (device_ready\<lparr>
           playbacks := [Returns (Some (snapshot ''Y'' True 300 200000)),
                         Returns (Some (snapshot ''X'' True 300 200000))],
           start_playbacks := [Returns (), Returns ()]\<rparr>))
   = Some (True, [Popen [''spotify''], SpDevices,
                  SpStartPlayback [''X''] 0, Sleep 2, SpCurrentPlayback, Sleep 1,
                  SpStartPlayback [''X''] 0, Sleep 2, SpCurrentPlayback])"
  unfolding start_playback_web_api_device_ready
  by (simp add: world_defs playing_item_def get_is_playing_def get_progress_ms_def
      wait_before_retry_def SpotifyRecorder_init_def fixture_defs)

section \<open>Waiting for the track to start\<close>

lemma map_option_fst_SomeD:
  "map_option fst r = Some x \<Longrightarrow> \<exists>y. r = Some (x, y)"
  by (cases r) auto

text \<open>One pass of the loop of \<open>wait_for_track_start\<close>, for each way it can go.\<close>

lemma get_playback_state_Nil:
  "playbacks w = [] \<Longrightarrow> get_playback_state m w = None"
  by (simp add: get_playback_state_def sp_current_playback_def)

lemma get_playback_state_Cons:
  "playbacks w = c # cs \<Longrightarrow>
     get_playback_state m w =
       Some (fetched c, m,
             emit_if (verbose m \<and> c = Raises) (DERROR FailedToGetPlaybackState)
               (emit SpCurrentPlayback (w\<lparr>playbacks := cs\<rparr>)))"
  by (cases c) (simp_all add: get_playback_state_def sp_current_playback_def fetched_def
      emit_if_def)

lemma wait_for_track_start_loop_no_time:
  "times w = [] \<Longrightarrow> wait_for_track_start_loop m e T s w = None"
  by (simp add: time_time_def)

lemma wait_for_track_start_loop_timeout:
  "times w = t # ts \<Longrightarrow> \<not> t - s < real_of_int T \<Longrightarrow>
     wait_for_track_start_loop m e T s w =
       Some (False, m, emit (DERROR (TimeoutWaitingForTrack e)) (w\<lparr>times := ts\<rparr>))"
  by (simp add: time_time_def)

lemma wait_for_track_start_loop_no_answer:
  "times w = t # ts \<Longrightarrow> t - s < real_of_int T \<Longrightarrow> playbacks w = [] \<Longrightarrow>
     wait_for_track_start_loop m e T s w = None"
  by (simp add: time_time_def get_playback_state_Nil)

lemma wait_for_track_start_loop_started:
  assumes "times w = t # ts" and "t - s < real_of_int T" and "playbacks w = c # cs"
    and "track_started e (fetched c)"
  shows "\<exists>p it w'. playing_item (fetched c) = Some (p, it)
           \<and> wait_for_track_start_loop m e T s w =
               Some (True, m\<lparr>current_track_id := Some (item_id it),
                              current_track_uri := Some e\<rparr>, w')"
proof -
  from assms(4) obtain p it where pi: "playing_item (fetched c) = Some (p, it)"
    and ok: "item_uri it = e" "get_is_playing p" "get_progress_ms p < 2000"
    by (auto simp: track_started_def split: option.splits)
  have g: "get_playback_state m (w\<lparr>times := ts\<rparr>) =
     Some (fetched c, m,
           emit_if (verbose m \<and> c = Raises) (DERROR FailedToGetPlaybackState)
             (emit SpCurrentPlayback (w\<lparr>times := ts, playbacks := cs\<rparr>)))"
    using get_playback_state_Cons [of "w\<lparr>times := ts\<rparr>" c cs m] assms(3) by simp
  have "wait_for_track_start_loop m e T s w =
      Some (True, m\<lparr>current_track_id := Some (item_id it), current_track_uri := Some e\<rparr>,
            emit_if (verbose m) (DOK (TrackStartedAt (get_progress_ms p)))
              (emit_if (verbose m \<and> c = Raises) (DERROR FailedToGetPlaybackState)
                 (emit SpCurrentPlayback (w\<lparr>times := ts, playbacks := cs\<rparr>))))"
    using assms(1,2) g pi ok
    by (subst wait_for_track_start_loop.simps) (simp add: time_time_def)
  with pi show ?thesis by blast
qed

lemma wait_for_track_start_loop_retry:
  assumes "times w = t # ts" and "t - s < real_of_int T" and "playbacks w = c # cs"
    and "\<not> track_started e (fetched c)"
  shows "\<exists>w1. wait_for_track_start_loop m e T s w = wait_for_track_start_loop m e T s w1
           \<and> times w1 = ts \<and> playbacks w1 = cs"
proof -
  let ?w2 = "emit_if (verbose m \<and> c = Raises) (DERROR FailedToGetPlaybackState)
             (emit SpCurrentPlayback (w\<lparr>times := ts, playbacks := cs\<rparr>))"
  have g: "get_playback_state m (w\<lparr>times := ts\<rparr>) = Some (fetched c, m, ?w2)"
    using get_playback_state_Cons [of "w\<lparr>times := ts\<rparr>" c cs m] assms(3) by simp
  have q: "times ?w2 = ts" "playbacks ?w2 = cs" by simp_all
  show ?thesis
  proof (cases "playing_item (fetched c)")
    case None
    let ?w1 = "sleep (poll_interval m) (emit_if (verbose m) (DINFO WaitingForPlaybackToStart) ?w2)"
    have "wait_for_track_start_loop m e T s w = wait_for_track_start_loop m e T s ?w1"
      using assms(1,2) g None
      by (subst wait_for_track_start_loop.simps) (simp add: time_time_def)
    moreover have "times ?w1 = ts \<and> playbacks ?w1 = cs" by simp
    ultimately show ?thesis by blast
  next
    case (Some pi)
    obtain p it where pi: "pi = (p, it)" by (cases pi)
    show ?thesis
    proof (cases "item_uri it = e \<and> get_is_playing p")
      case True
      with assms(4) Some pi have late: "\<not> get_progress_ms p < 2000"
        by (simp add: track_started_def)
      let ?w1 = "sleep (poll_interval m)
                   (emit_if (verbose m) (DINFO (TrackPlayingButAt (get_progress_ms p))) ?w2)"
      have "wait_for_track_start_loop m e T s w = wait_for_track_start_loop m e T s ?w1"
        using assms(1,2) g Some pi True late
        by (subst wait_for_track_start_loop.simps) (simp add: time_time_def)
      moreover have "times ?w1 = ts \<and> playbacks ?w1 = cs" by simp
      ultimately show ?thesis by blast
    next
      case False
      let ?w1 = "sleep (poll_interval m) ?w2"
      have "wait_for_track_start_loop m e T s w = wait_for_track_start_loop m e T s ?w1"
        using assms(1,2) g Some pi False
        by (subst wait_for_track_start_loop.simps) (auto simp: time_time_def)
      moreover have "times ?w1 = ts \<and> playbacks ?w1 = cs" by simp
      ultimately show ?thesis by blast
    qed
  qed
qed


lemma polled_before_timeout_Nil [simp]:
  "polled_before_timeout s T [] cs = []" "polled_before_timeout s T ts [] = []"
  by (simp_all add: polled_before_timeout_def polls_within_def)

lemma polled_before_timeout_Cons:
  "polled_before_timeout s T (t # ts) (c # cs) =
     (if t - s < real_of_int T then fetched c # polled_before_timeout s T ts cs else [])"
  by (simp add: polled_before_timeout_def polls_within_def)

lemma polled_before_timeout_late [simp]:
  "\<not> t - s < real_of_int T \<Longrightarrow> polled_before_timeout s T (t # ts) cs = []"
  by (simp add: polled_before_timeout_def polls_within_def)

lemma timeout_elapses_simps:
  "timeout_elapses s T [] cs = False"
  "\<not> t - s < real_of_int T \<Longrightarrow> timeout_elapses s T (t # ts) cs = True"
  "t - s < real_of_int T \<Longrightarrow> timeout_elapses s T (t # ts) [] = False"
  "t - s < real_of_int T \<Longrightarrow>
     timeout_elapses s T (t # ts) (c # cs) = timeout_elapses s T ts cs"
  by (simp_all add: timeout_elapses_def polls_within_def)

lemma wait_for_track_start_loop_result:
  "map_option fst (wait_for_track_start_loop m e T s w) =
     (if \<exists>pb \<in> set (polled_before_timeout s T (times w) (playbacks w)). track_started e pb
      then Some True
      else if timeout_elapses s T (times w) (playbacks w) then Some False else None)"
proof (induction "times w" arbitrary: w)
  case Nil
  then have "times w = []" by simp
  then show ?case
    by (simp add: wait_for_track_start_loop_no_time timeout_elapses_simps
        del: wait_for_track_start_loop.simps)
next
  case (Cons t ts)
  then have tw: "times w = t # ts" by simp
  show ?case
  proof (cases "t - s < real_of_int T")
    case False
    with tw show ?thesis
      by (simp add: wait_for_track_start_loop_timeout timeout_elapses_simps
          del: wait_for_track_start_loop.simps)
  next
    case True
    show ?thesis
    proof (cases "playbacks w")
      case Nil
      with tw True show ?thesis
        by (simp add: wait_for_track_start_loop_no_answer timeout_elapses_simps
            del: wait_for_track_start_loop.simps)
    next
      case (Cons c cs)
      show ?thesis
      proof (cases "track_started e (fetched c)")
        case started: True
        from wait_for_track_start_loop_started [OF tw True Cons started, of m]
        obtain m' w' where "wait_for_track_start_loop m e T s w = Some (True, m', w')"
          by blast
        with tw True Cons started show ?thesis
          by (simp add: polled_before_timeout_Cons del: wait_for_track_start_loop.simps)
      next
        case False
        from wait_for_track_start_loop_retry [OF tw True Cons False, of m]
        obtain w1 where
          step: "wait_for_track_start_loop m e T s w = wait_for_track_start_loop m e T s w1"
          and w1: "times w1 = ts" "playbacks w1 = cs"
          by blast
        from Cons.hyps(1) [of w1] w1
        have "map_option fst (wait_for_track_start_loop m e T s w1) =
          (if \<exists>pb \<in> set (polled_before_timeout s T ts cs). track_started e pb
           then Some True
           else if timeout_elapses s T ts cs then Some False else None)"
          by simp
        with step tw True Cons False show ?thesis
          by (simp add: polled_before_timeout_Cons timeout_elapses_simps
              del: wait_for_track_start_loop.simps)
      qed
    qed
  qed
qed

lemma wait_for_track_start_loop_session:
  "wait_for_track_start_loop m e T s w = Some (b, m', w') \<Longrightarrow>
     (if b then
        \<exists>pb \<in> set (polled_before_timeout s T (times w) (playbacks w)). \<exists>p it.
           playing_item pb = Some (p, it) \<and> track_started e pb
           \<and> m' = m\<lparr>current_track_id := Some (item_id it), current_track_uri := Some e\<rparr>
      else m' = m)"
proof (induction "times w" arbitrary: w)
  case Nil
  then have "times w = []" by simp
  with Nil.prems show ?case
    by (simp add: wait_for_track_start_loop_no_time del: wait_for_track_start_loop.simps)
next
  case (Cons t ts)
  then have tw: "times w = t # ts" by simp
  note res = Cons.prems
  show ?case
  proof (cases "t - s < real_of_int T")
    case False
    with tw res show ?thesis
      by (simp add: wait_for_track_start_loop_timeout del: wait_for_track_start_loop.simps)
  next
    case True
    show ?thesis
    proof (cases "playbacks w")
      case Nil
      with tw True res show ?thesis
        by (simp add: wait_for_track_start_loop_no_answer del: wait_for_track_start_loop.simps)
    next
      case (Cons c cs)
      show ?thesis
      proof (cases "track_started e (fetched c)")
        case started: True
        from wait_for_track_start_loop_started [OF tw True Cons started, of m]
        obtain p it w2 where "playing_item (fetched c) = Some (p, it)"
          and "wait_for_track_start_loop m e T s w =
                 Some (True, m\<lparr>current_track_id := Some (item_id it),
                                current_track_uri := Some e\<rparr>, w2)"
          by blast
        with res tw True Cons started show ?thesis
          by (auto simp: polled_before_timeout_Cons simp del: wait_for_track_start_loop.simps)
      next
        case False
        from wait_for_track_start_loop_retry [OF tw True Cons False, of m]
        obtain w1 where
          step: "wait_for_track_start_loop m e T s w = wait_for_track_start_loop m e T s w1"
          and w1: "times w1 = ts" "playbacks w1 = cs"
          by blast
        from step res have "wait_for_track_start_loop m e T s w1 = Some (b, m', w')" by simp
        from w1 Cons.hyps(1) [of w1, OF _ this]
        have "if b then
            \<exists>pb \<in> set (polled_before_timeout s T ts cs). \<exists>p it.
               playing_item pb = Some (p, it) \<and> track_started e pb
               \<and> m' = m\<lparr>current_track_id := Some (item_id it), current_track_uri := Some e\<rparr>
          else m' = m"
          by (cases b) simp_all
        with tw True Cons show ?thesis
          by (auto simp: polled_before_timeout_Cons simp del: wait_for_track_start_loop.simps)
      qed
    qed
  qed
qed


text \<open>
  C7. \<open>wait_for_track_start\<close> returns \<open>True\<close> exactly when one of the snapshots
  polled before the timeout elapses has the expected URI, is playing and has a progress
  below 2000 ms; it returns \<open>False\<close> when the timeout elapses with no such snapshot
  (and has no result only when the world gives no further answers before either
  happens). On success the monitor holds the id and the URI of the snapshot that was
  accepted. The witness runs the two sequences of the specification: absent, absent,
  then the expected track at 500 ms (true); and the same with the track at 5000 ms and
  the timeout elapsing (false).
\<close>

theorem wait_for_track_start_exactly:
  assumes "times w = start_time # ts"
  shows "map_option fst (wait_for_track_start m expected_uri timeout w) =
           (if \<exists>pb \<in> set (polled_before_timeout start_time timeout ts (playbacks w)).
                 track_started expected_uri pb
            then Some True
            else if timeout_elapses start_time timeout ts (playbacks w) then Some False
            else None)
       \<and> (\<forall>m' w'. wait_for_track_start m expected_uri timeout w = Some (True, m', w') \<longrightarrow>
             (\<exists>pb \<in> set (polled_before_timeout start_time timeout ts (playbacks w)). \<exists>p it.
                 playing_item pb = Some (p, it) \<and> track_started expected_uri pb
                 \<and> m' = m\<lparr>current_track_id := Some (item_id it),
                            current_track_uri := Some expected_uri\<rparr>))"
proof -
  have run: "wait_for_track_start m expected_uri timeout w =
      wait_for_track_start_loop m expected_uri timeout start_time (w\<lparr>times := ts\<rparr>)"
    using assms by (simp add: wait_for_track_start_def time_time_def)
  have "map_option fst (wait_for_track_start m expected_uri timeout w) =
           (if \<exists>pb \<in> set (polled_before_timeout start_time timeout ts (playbacks w)).
                 track_started expected_uri pb
            then Some True
            else if timeout_elapses start_time timeout ts (playbacks w) then Some False
            else None)"
    unfolding run
    using wait_for_track_start_loop_result
      [of m expected_uri timeout start_time "w\<lparr>times := ts\<rparr>"]
    by simp
  moreover have "\<exists>pb \<in> set (polled_before_timeout start_time timeout ts (playbacks w)). \<exists>p it.
        playing_item pb = Some (p, it) \<and> track_started expected_uri pb
        \<and> m' = m\<lparr>current_track_id := Some (item_id it),
                   current_track_uri := Some expected_uri\<rparr>"
    if "wait_for_track_start m expected_uri timeout w = Some (True, m', w')" for m' w'
    using wait_for_track_start_loop_session
      [of m expected_uri timeout start_time "w\<lparr>times := ts\<rparr>" True m' w'] that
    unfolding run by simp
  ultimately show ?thesis by blast
qed

theorem wait_for_track_start_exactly_witness:
  "(\<exists>m' w'. wait_for_track_start (PlaybackMonitor_init 0.5 False) ''X'' 30
        (world0\<lparr>times := [0, 0.1, 0.6, 1.1],
           playbacks := [Returns None, Returns None,
                         Returns (Some (snapshot ''X'' True 500 200000))]\<rparr>) = Some (True, m', w')
        \<and> current_track_uri m' = Some ''X'' \<and> current_track_id m' = Some ''id-X'')
   \<and> map_option fst
     (wait_for_track_start (PlaybackMonitor_init 0.5 False) ''X'' 1
        (world0\<lparr>times := [0, 0.1, 0.4, 0.9, 1.4],
           playbacks := [Returns None, Returns None,
                         Returns (Some (snapshot ''X'' True 5000 200000))]\<rparr>)) = Some False"
proof -
  let ?m = "PlaybackMonitor_init 0.5 False"
  let ?good = "world0\<lparr>times := [0, 0.1, 0.6, 1.1],
           playbacks := [Returns None, Returns None,
                         Returns (Some (snapshot ''X'' True 500 200000))]\<rparr>"
  let ?late = "world0\<lparr>times := [0, 0.1, 0.4, 0.9, 1.4],
           playbacks := [Returns None, Returns None,
                         Returns (Some (snapshot ''X'' True 5000 200000))]\<rparr>"
  note evals = polled_before_timeout_Cons timeout_elapses_simps track_started_def
    fetched_def playing_item_def get_is_playing_def get_progress_ms_def snapshot_def
  have g: "times ?good = 0 # [0.1, 0.6, 1.1]" by simp
  have l: "times ?late = 0 # [0.1, 0.4, 0.9, 1.4]" by simp
  note good = wait_for_track_start_exactly [OF g, of ?m "''X''" 30]
  from good have "map_option fst (wait_for_track_start ?m ''X'' 30 ?good) = Some True"
    by (simp add: evals)
  then obtain m' w' where run: "wait_for_track_start ?m ''X'' 30 ?good = Some (True, m', w')"
    by (auto dest!: map_option_fst_SomeD)
  with good have "current_track_uri m' = Some ''X'' \<and> current_track_id m' = Some ''id-X''"
    by (auto simp: evals)
  moreover
  from wait_for_track_start_exactly [OF l, of ?m "''X''" 1]
  have "map_option fst (wait_for_track_start ?m ''X'' 1 ?late) = Some False"
    by (simp add: evals)
  ultimately show ?thesis using run by blast
qed

section \<open>The session of the monitor\<close>

text \<open>One pass of the loop of \<open>wait_for_position_reset\<close>.\<close>

lemma wait_for_position_reset_loop_no_time:
  "times w = [] \<Longrightarrow> wait_for_position_reset_loop m e T s w = None"
  by (simp add: time_time_def)

lemma wait_for_position_reset_loop_timeout:
  "times w = t # ts \<Longrightarrow> \<not> t - s < real_of_int T \<Longrightarrow>
     wait_for_position_reset_loop m e T s w =
       Some (False, m, emit (DERROR (TrackDidNotReset T)) (w\<lparr>times := ts\<rparr>))"
  by (simp add: time_time_def)

lemma wait_for_position_reset_loop_no_answer:
  "times w = t # ts \<Longrightarrow> t - s < real_of_int T \<Longrightarrow> playbacks w = [] \<Longrightarrow>
     wait_for_position_reset_loop m e T s w = None"
  by (simp add: time_time_def get_playback_state_Nil)

text \<open>
  With an answer, the pass either returns \<open>True\<close> with the monitor as it was, or goes
  round again after one poll interval with the rest of the clock and of the answers.
\<close>

lemma wait_for_position_reset_loop_answer:
  assumes "times w = t # ts" and "t - s < real_of_int T" and "playbacks w = c # cs"
  shows "(\<exists>w'. wait_for_position_reset_loop m e T s w = Some (True, m, w'))
       \<or> (\<exists>w1. wait_for_position_reset_loop m e T s w = wait_for_position_reset_loop m e T s w1
             \<and> times w1 = ts \<and> playbacks w1 = cs)"
proof -
  let ?w2 = "emit_if (verbose m \<and> c = Raises) (DERROR FailedToGetPlaybackState)
             (emit SpCurrentPlayback (w\<lparr>times := ts, playbacks := cs\<rparr>))"
  have g: "get_playback_state m (w\<lparr>times := ts\<rparr>) = Some (fetched c, m, ?w2)"
    using get_playback_state_Cons [of "w\<lparr>times := ts\<rparr>" c cs m] assms(3) by simp
  show ?thesis
  proof (cases "playing_item (fetched c)")
    case None
    let ?w1 = "sleep (poll_interval m) ?w2"
    have "wait_for_position_reset_loop m e T s w = wait_for_position_reset_loop m e T s ?w1"
      using assms(1,2) g None
      by (subst wait_for_position_reset_loop.simps) (simp add: time_time_def)
    moreover have "times ?w1 = ts \<and> playbacks ?w1 = cs" by simp
    ultimately show ?thesis by blast
  next
    case (Some pi)
    obtain p it where pi: "pi = (p, it)" by (cases pi)
    show ?thesis
    proof (cases "item_uri it = e")
      case False
      let ?w1 = "sleep (poll_interval m) ?w2"
      have "wait_for_position_reset_loop m e T s w = wait_for_position_reset_loop m e T s ?w1"
        using assms(1,2) g Some pi False
        by (subst wait_for_position_reset_loop.simps) (simp add: time_time_def)
      moreover have "times ?w1 = ts \<and> playbacks ?w1 = cs" by simp
      ultimately show ?thesis by blast
    next
      case True
      show ?thesis
      proof (cases "get_progress_ms p < 1000")
        case reset: True
        have "wait_for_position_reset_loop m e T s w =
            Some (True, m,
                  emit_if (verbose m) (DOK (TrackPositionVerified (get_progress_ms p))) ?w2)"
          using assms(1,2) g Some pi True reset
          by (subst wait_for_position_reset_loop.simps) (simp add: time_time_def)
        then show ?thesis by blast
      next
        case False
        let ?w1 = "sleep (poll_interval m)
             (emit_if (verbose m) (DINFO (WaitingForPositionReset (get_progress_ms p))) ?w2)"
        have "wait_for_position_reset_loop m e T s w = wait_for_position_reset_loop m e T s ?w1"
          using assms(1,2) g Some pi True False
          by (subst wait_for_position_reset_loop.simps) (simp add: time_time_def)
        moreover have "times ?w1 = ts \<and> playbacks ?w1 = cs" by simp
        ultimately show ?thesis by blast
      qed
    qed
  qed
qed

lemma wait_for_position_reset_loop_frame:
  "wait_for_position_reset_loop m e T s w = Some (b, m', w') \<Longrightarrow> m' = m"
proof (induction "times w" arbitrary: w)
  case Nil
  then have "times w = []" by simp
  with Nil.prems show ?case
    by (simp add: wait_for_position_reset_loop_no_time del: wait_for_position_reset_loop.simps)
next
  case (Cons t ts)
  then have tw: "times w = t # ts" by simp
  note res = Cons.prems
  show ?case
  proof (cases "t - s < real_of_int T")
    case False
    with tw res show ?thesis
      by (simp add: wait_for_position_reset_loop_timeout
          del: wait_for_position_reset_loop.simps)
  next
    case True
    show ?thesis
    proof (cases "playbacks w")
      case Nil
      with tw True res show ?thesis
        by (simp add: wait_for_position_reset_loop_no_answer
            del: wait_for_position_reset_loop.simps)
    next
      case (Cons c cs)
      from wait_for_position_reset_loop_answer [OF tw True Cons, of m e]
      show ?thesis
      proof
        assume "\<exists>w'. wait_for_position_reset_loop m e T s w = Some (True, m, w')"
        with res show ?thesis by auto
      next
        assume "\<exists>w1. wait_for_position_reset_loop m e T s w
                     = wait_for_position_reset_loop m e T s w1
                   \<and> times w1 = ts \<and> playbacks w1 = cs"
        then obtain w1 where
          step: "wait_for_position_reset_loop m e T s w
                   = wait_for_position_reset_loop m e T s w1"
          and w1: "times w1 = ts" by blast
        from step res have "wait_for_position_reset_loop m e T s w1 = Some (b, m', w')"
          by simp
        from Cons.hyps(1) [of w1, OF _ this] w1 show ?thesis by simp
      qed
    qed
  qed
qed

text \<open>One pass of \<open>monitor_until_track_change\<close>.\<close>

lemma monitor_until_track_change_no_answer:
  "playbacks w = [] \<Longrightarrow> monitor_until_track_change m h w = None"
  by (simp add: get_playback_state_Nil)

lemma monitor_until_track_change_stopped:
  "playbacks w = c # cs \<Longrightarrow> playing_item (fetched c) = None \<Longrightarrow>
     monitor_until_track_change m h w =
       Some (None, m,
             emit_if (verbose m) (DINFO PlaybackStopped)
               (emit_if (verbose m \<and> c = Raises) (DERROR FailedToGetPlaybackState)
                  (emit SpCurrentPlayback (w\<lparr>playbacks := cs\<rparr>))))"
  by (subst monitor_until_track_change.simps) (simp add: get_playback_state_Cons)

lemma monitor_until_track_change_changed:
  "playbacks w = c # cs \<Longrightarrow> playing_item (fetched c) = Some (p, it) \<Longrightarrow>
   Some (item_uri it) \<noteq> current_track_uri m \<Longrightarrow>
     \<exists>w'. monitor_until_track_change m h w = Some (Some (item_uri it), m, w')"
  by (subst monitor_until_track_change.simps) (simp add: get_playback_state_Cons)

lemma monitor_until_track_change_same:
  "playbacks w = c # cs \<Longrightarrow> playing_item (fetched c) = Some (p, it) \<Longrightarrow>
   Some (item_uri it) = current_track_uri m \<Longrightarrow>
     monitor_until_track_change m h w =
       monitor_until_track_change m h
         (sleep (poll_interval m)
            (emit_if (verbose m \<and> c = Raises) (DERROR FailedToGetPlaybackState)
               (emit SpCurrentPlayback (w\<lparr>playbacks := cs\<rparr>))))"
  by (subst monitor_until_track_change.simps) (simp add: get_playback_state_Cons)

lemma monitor_until_track_change_frame:
  "monitor_until_track_change m h w = Some (x, m', w') \<Longrightarrow> m' = m"
proof (induction "playbacks w" arbitrary: w)
  case Nil
  then have "playbacks w = []" by simp
  with Nil.prems show ?case
    by (simp add: monitor_until_track_change_no_answer del: monitor_until_track_change.simps)
next
  case (Cons c cs)
  then have pw: "playbacks w = c # cs" by simp
  note res = Cons.prems
  show ?case
  proof (cases "playing_item (fetched c)")
    case None
    from monitor_until_track_change_stopped [OF pw None, of m h] res show ?thesis by simp
  next
    case (Some pi)
    obtain p it where pi: "playing_item (fetched c) = Some (p, it)"
      using Some by (cases pi) simp
    show ?thesis
    proof (cases "Some (item_uri it) = current_track_uri m")
      case False
      from monitor_until_track_change_changed [OF pw pi False, of h] res show ?thesis by auto
    next
      case True
      let ?w1 = "sleep (poll_interval m)
            (emit_if (verbose m \<and> c = Raises) (DERROR FailedToGetPlaybackState)
               (emit SpCurrentPlayback (w\<lparr>playbacks := cs\<rparr>)))"
      from monitor_until_track_change_same [OF pw pi True, of h] res
      have "monitor_until_track_change m h ?w1 = Some (x, m', w')" by simp
      from Cons.hyps(1) [of ?w1, OF _ this] show ?thesis by simp
    qed
  qed
qed

text \<open>
  C9. The monitor is written only by the success branch of \<open>wait_for_track_start\<close>,
  which stores the id and the URI of the track and leaves the other fields alone.
  \<open>wait_for_track_start\<close> returning \<open>False\<close>, \<open>wait_for_position_reset\<close>,
  \<open>get_remaining_time\<close>, \<open>get_playback_state\<close> and
  \<open>monitor_until_track_change\<close>, whatever it returns, leave the monitor as it was.
\<close>

theorem session_written_only_by_track_start:
  "(\<forall>m' w'. wait_for_track_start m e T w = Some (False, m', w') \<longrightarrow> m' = m)
   \<and> (\<forall>m' w'. wait_for_track_start m e T w = Some (True, m', w') \<longrightarrow>
         current_track_uri m' = Some e \<and> current_track_id m' \<noteq> None
         \<and> poll_interval m' = poll_interval m \<and> verbose m' = verbose m)
   \<and> (\<forall>b m' w'. wait_for_position_reset m e T w = Some (b, m', w') \<longrightarrow> m' = m)
   \<and> (\<forall>x m' w'. get_remaining_time m w = Some (x, m', w') \<longrightarrow> m' = m)
   \<and> (\<forall>x m' w'. monitor_until_track_change m h w = Some (x, m', w') \<longrightarrow> m' = m)
   \<and> (\<forall>pb m' w'. get_playback_state m w = Some (pb, m', w') \<longrightarrow> m' = m)"
proof -
  have 1: "m' = m" if "wait_for_track_start m e T w = Some (False, m', w')" for m' w'
  proof -
    from that obtain s w1 where "wait_for_track_start_loop m e T s w1 = Some (False, m', w')"
      by (auto simp: wait_for_track_start_def split: option.splits
          simp del: wait_for_track_start_loop.simps)
    from wait_for_track_start_loop_session [OF this] show ?thesis by simp
  qed
  have 2: "current_track_uri m' = Some e \<and> current_track_id m' \<noteq> None
         \<and> poll_interval m' = poll_interval m \<and> verbose m' = verbose m"
    if "wait_for_track_start m e T w = Some (True, m', w')" for m' w'
  proof -
    from that obtain s w1 where "wait_for_track_start_loop m e T s w1 = Some (True, m', w')"
      by (auto simp: wait_for_track_start_def split: option.splits
          simp del: wait_for_track_start_loop.simps)
    from wait_for_track_start_loop_session [OF this] show ?thesis by auto
  qed
  have 3: "m' = m" if "wait_for_position_reset m e T w = Some (b, m', w')" for b m' w'
  proof -
    from that obtain s w1 where "wait_for_position_reset_loop m e T s w1 = Some (b, m', w')"
      by (auto simp: wait_for_position_reset_def split: option.splits
          simp del: wait_for_position_reset_loop.simps)
    from wait_for_position_reset_loop_frame [OF this] show ?thesis .
  qed
  have 4: "m' = m" if "get_remaining_time m w = Some (x, m', w')" for x m' w'
    using that
    by (auto simp: get_remaining_time_def get_playback_state_def
        split: option.splits prod.splits outcome.splits)
  have 5: "m' = m" if "monitor_until_track_change m h w = Some (x, m', w')" for x m' w'
    using monitor_until_track_change_frame [OF that] .
  have 6: "m' = m" if "get_playback_state m w = Some (pb, m', w')" for pb m' w'
    using that
    by (auto simp: get_playback_state_def split: option.splits prod.splits outcome.splits)
  from 1 2 3 4 5 6 show ?thesis by blast
qed

theorem session_written_only_by_track_start_witness:
  "(\<exists>w'. wait_for_track_start (tracking ''A'') ''X'' 1
            (world0\<lparr>times := [0, 0.1, 0.4, 0.9, 1.4],
               playbacks := [Returns None, Raises,
                             Returns (Some (snapshot ''X'' True 5000 200000))]\<rparr>)
          = Some (False, tracking ''A'', w'))
   \<and> (\<exists>m' w'. wait_for_track_start (tracking ''A'') ''X'' 30
            (world0\<lparr>times := [0, 0.1],
               playbacks := [Returns (Some (snapshot ''X'' True 500 200000))]\<rparr>)
          = Some (True, m', w') \<and> current_track_uri m' = Some ''X'')
   \<and> (\<exists>w'. wait_for_position_reset (tracking ''A'') ''X'' 5
            (world0\<lparr>times := [0, 0.1],
               playbacks := [Returns (Some (snapshot ''X'' True 200 200000))]\<rparr>)
          = Some (True, tracking ''A'', w'))
   \<and> (\<exists>w'. get_remaining_time (tracking ''A'')
            (world0\<lparr>playbacks := [Returns (Some (snapshot ''X'' True 200 200000))]\<rparr>)
          = Some (Some 199800, tracking ''A'', w'))
   \<and> (\<exists>w'. monitor_until_track_change (tracking ''A'') (Some 7)
            (world0\<lparr>playbacks := [Returns (Some (snapshot ''A'' True 199000 200000)),
                                   Returns (Some (snapshot ''B'' True 100 200000))]\<rparr>)
          = Some (Some ''B'', tracking ''A'', w'))"
proof -
  let ?m = "tracking ''A''"
  let ?wa = "world0\<lparr>times := [0, 0.1, 0.4, 0.9, 1.4],
               playbacks := [Returns None, Raises,
                             Returns (Some (snapshot ''X'' True 5000 200000))]\<rparr>"
  let ?wb = "world0\<lparr>times := [0, 0.1],
               playbacks := [Returns (Some (snapshot ''X'' True 500 200000))]\<rparr>"
  let ?wc = "world0\<lparr>times := [0, 0.1],
               playbacks := [Returns (Some (snapshot ''X'' True 200 200000))]\<rparr>"
  let ?wd = "world0\<lparr>playbacks := [Returns (Some (snapshot ''X'' True 200 200000))]\<rparr>"
  let ?we = "world0\<lparr>playbacks := [Returns (Some (snapshot ''A'' True 199000 200000)),
                                   Returns (Some (snapshot ''B'' True 100 200000))]\<rparr>"
  note defs = world_defs monitor_defs fixture_defs tracking_def
  have "map_option fst (wait_for_track_start ?m ''X'' 1 ?wa) = Some False"
    by (simp add: defs)
  then obtain ma wa' where a: "wait_for_track_start ?m ''X'' 1 ?wa = Some (False, ma, wa')"
    by (auto dest!: map_option_fst_SomeD)
  have "map_option fst (wait_for_track_start ?m ''X'' 30 ?wb) = Some True"
    by (simp add: defs)
  then obtain mb wb' where b: "wait_for_track_start ?m ''X'' 30 ?wb = Some (True, mb, wb')"
    by (auto dest!: map_option_fst_SomeD)
  have "map_option fst (wait_for_position_reset ?m ''X'' 5 ?wc) = Some True"
    by (simp add: defs)
  then obtain mc wc' where c: "wait_for_position_reset ?m ''X'' 5 ?wc = Some (True, mc, wc')"
    by (auto dest!: map_option_fst_SomeD)
  have "map_option fst (get_remaining_time ?m ?wd) = Some (Some 199800)"
    by (simp add: defs)
  then obtain md wd' where d: "get_remaining_time ?m ?wd = Some (Some 199800, md, wd')"
    by (auto dest!: map_option_fst_SomeD)
  have "map_option fst (monitor_until_track_change ?m (Some 7) ?we) = Some (Some ''B'')"
    by (simp add: defs)
  then obtain me we' where
    e: "monitor_until_track_change ?m (Some 7) ?we = Some (Some ''B'', me, we')"
    by (auto dest!: map_option_fst_SomeD)
  from session_written_only_by_track_start [of ?m "''X''" 1 ?wa] a
  have 1: "ma = ?m" by blast
  from session_written_only_by_track_start [of ?m "''X''" 30 ?wb] b
  have 2: "current_track_uri mb = Some ''X''" by blast
  from session_written_only_by_track_start [of ?m "''X''" 5 ?wc] c
  have 3: "mc = ?m" by blast
  from session_written_only_by_track_start [of ?m _ _ ?wd] d
  have 4: "md = ?m" by blast
  from session_written_only_by_track_start [of ?m _ _ ?we "Some 7"] e
  have 5: "me = ?m" by blast
  from a b c d e 1 2 3 4 5 show ?thesis by blast
qed

section \<open>Failed fetches in the poll loops\<close>

text \<open>
  C4 (as stated, refuted). The claim says that a single failed fetch never decides what
  \<open>monitor_until_track_change\<close> returns. With the recorded track still playing and
  another track after it, the monitor returns the new URI; with one failed fetch put
  in front of the same answers it returns \<open>None\<close>, as if playback had stopped.
\<close>

theorem monitor_until_track_change_failure_decides:
  "map_option fst
     (monitor_until_track_change (tracking ''A'') None
        (world0\<lparr>playbacks := [Raises,
                               Returns (Some (snapshot ''A'' True 199000 200000)),
                               Returns (Some (snapshot ''B'' True 100 200000))]\<rparr>))
   = Some None
   \<and> map_option fst
     (monitor_until_track_change (tracking ''A'') None
        (world0\<lparr>playbacks := [Returns (Some (snapshot ''A'' True 199000 200000)),
                               Returns (Some (snapshot ''B'' True 100 200000))]\<rparr>))
   = Some (Some ''B'')"
  by (simp add: world_defs monitor_defs fixture_defs tracking_def)

text \<open>
  C4 (amended). In \<open>monitor_until_track_change\<close> a failed fetch is not absorbed: it
  is taken for "nothing is playing" and ends the loop with \<open>None\<close> at once (the hook is
  not called, the monitor is unchanged). In the other poll loops a single failure is
  absorbed: \<open>wait_for_track_start\<close> and \<open>wait_for_position_reset\<close> sleep one poll
  interval and go on with the next pass, the device loop sleeps one second and goes on,
  and the retry loop of \<open>start_playback_web_api\<close> goes on to its next attempt; what
  they return is what the rest of the loop returns.
\<close>

theorem fetch_failure_in_poll_loops:
  "(playbacks w = Raises # cs \<longrightarrow>
      monitor_until_track_change m h w =
        Some (None, m,
              emit_if (verbose m) (DINFO PlaybackStopped)
                (emit_if (verbose m) (DERROR FailedToGetPlaybackState)
                   (emit SpCurrentPlayback (w\<lparr>playbacks := cs\<rparr>)))))
   \<and> (times w = t # ts \<and> t - s < real_of_int T \<and> playbacks w = Raises # cs \<longrightarrow>
        wait_for_track_start_loop m e T s w =
          wait_for_track_start_loop m e T s
            (sleep (poll_interval m)
               (emit_if (verbose m) (DINFO WaitingForPlaybackToStart)
                  (emit_if (verbose m) (DERROR FailedToGetPlaybackState)
                     (emit SpCurrentPlayback (w\<lparr>times := ts, playbacks := cs\<rparr>))))))
   \<and> (times w = t # ts \<and> t - s < real_of_int T \<and> playbacks w = Raises # cs \<longrightarrow>
        wait_for_position_reset_loop m e T s w =
          wait_for_position_reset_loop m e T s
            (sleep (poll_interval m)
               (emit_if (verbose m) (DERROR FailedToGetPlaybackState)
                  (emit SpCurrentPlayback (w\<lparr>times := ts, playbacks := cs\<rparr>)))))
   \<and> (times w = t # ts \<and> t - s < real_of_int T \<and> device_lists w = Raises # ds
        \<and> \<not> r_verbose r \<longrightarrow>
        wait_for_device r T s w =
          wait_for_device r T s
            (sleep 1 (emit SpDevices (w\<lparr>times := ts, device_lists := ds\<rparr>))))
   \<and> (times w = t # t2 # ts \<and> t - s < real_of_int T \<and> device_lists w = Raises # ds
        \<and> r_verbose r \<longrightarrow>
        wait_for_device r T s w =
          wait_for_device r T s
            (sleep 1
               (emit (DINFO (WaitingForSpotifyDevice (py_int (t2 - s))))
                  (emit SpDevices (w\<lparr>times := ts, device_lists := ds\<rparr>)))))
   \<and> (start_playbacks w = Raises # ss \<longrightarrow>
        attempts r uri n (a # rest) w =
          attempts r uri n rest
            (attempt_raised r a n
               (emit (SpStartPlayback [uri] 0)
                  (emit_if (r_verbose r)
                     (DINFO (StartingPlaybackViaWebApi (a + 1) n uri)) w
                   \<lparr>start_playbacks := ss\<rparr>))))
   \<and> (start_playbacks w = Returns () # ss \<and> playbacks w = Raises # cs \<longrightarrow>
        attempts r uri n (a # rest) w =
          attempts r uri n rest
            (attempt_raised r a n
               (emit SpCurrentPlayback
                  ((sleep 2
                      (emit (SpStartPlayback [uri] 0)
                         (emit_if (r_verbose r)
                            (DINFO (StartingPlaybackViaWebApi (a + 1) n uri)) w
                          \<lparr>start_playbacks := ss\<rparr>)))
                   \<lparr>playbacks := cs\<rparr>))))"
proof -
  have 1: "monitor_until_track_change m h w =
        Some (None, m,
              emit_if (verbose m) (DINFO PlaybackStopped)
                (emit_if (verbose m) (DERROR FailedToGetPlaybackState)
                   (emit SpCurrentPlayback (w\<lparr>playbacks := cs\<rparr>))))"
    if "playbacks w = Raises # cs"
    using monitor_until_track_change_stopped [OF that, of m h]
    by (simp add: fetched_def playing_item_def del: monitor_until_track_change.simps)
  have g: "get_playback_state m (w\<lparr>times := ts\<rparr>) =
      Some (None, m, emit_if (verbose m) (DERROR FailedToGetPlaybackState)
                       (emit SpCurrentPlayback (w\<lparr>times := ts, playbacks := cs\<rparr>)))"
    if "playbacks w = Raises # cs"
    using get_playback_state_Cons [of "w\<lparr>times := ts\<rparr>" Raises cs m] that
    by (simp add: fetched_def)
  have 2: "wait_for_track_start_loop m e T s w =
          wait_for_track_start_loop m e T s
            (sleep (poll_interval m)
               (emit_if (verbose m) (DINFO WaitingForPlaybackToStart)
                  (emit_if (verbose m) (DERROR FailedToGetPlaybackState)
                     (emit SpCurrentPlayback (w\<lparr>times := ts, playbacks := cs\<rparr>)))))"
    if "times w = t # ts" "t - s < real_of_int T" "playbacks w = Raises # cs"
    using that g
    by (subst wait_for_track_start_loop.simps)
      (simp add: time_time_def playing_item_def del: wait_for_track_start_loop.simps)
  have 3: "wait_for_position_reset_loop m e T s w =
          wait_for_position_reset_loop m e T s
            (sleep (poll_interval m)
               (emit_if (verbose m) (DERROR FailedToGetPlaybackState)
                  (emit SpCurrentPlayback (w\<lparr>times := ts, playbacks := cs\<rparr>))))"
    if "times w = t # ts" "t - s < real_of_int T" "playbacks w = Raises # cs"
    using that g
    by (subst wait_for_position_reset_loop.simps)
      (simp add: time_time_def playing_item_def del: wait_for_position_reset_loop.simps)
  have 4: "wait_for_device r T s w =
          wait_for_device r T s
            (sleep 1 (emit SpDevices (w\<lparr>times := ts, device_lists := ds\<rparr>)))"
    if "times w = t # ts" "t - s < real_of_int T" "device_lists w = Raises # ds"
      "\<not> r_verbose r"
    using that
    by (subst wait_for_device.simps)
      (simp add: time_time_def sp_devices_def emit_def del: wait_for_device.simps)
  have 5: "attempts r uri n (a # rest) w =
          attempts r uri n rest
            (attempt_raised r a n
               (emit SpCurrentPlayback
                  ((sleep 2
                      (emit (SpStartPlayback [uri] 0)
                         (emit_if (r_verbose r)
                            (DINFO (StartingPlaybackViaWebApi (a + 1) n uri)) w
                          \<lparr>start_playbacks := ss\<rparr>)))
                   \<lparr>playbacks := cs\<rparr>)))"
    if "start_playbacks w = Returns () # ss" "playbacks w = Raises # cs"
    using that
    by (simp add: sp_start_playback_def sp_current_playback_def emit_if_def emit_def sleep_def)
  have 6: "wait_for_device r T s w =
          wait_for_device r T s
            (sleep 1
               (emit (DINFO (WaitingForSpotifyDevice (py_int (t2 - s))))
                  (emit SpDevices (w\<lparr>times := ts, device_lists := ds\<rparr>))))"
    if "times w = t # t2 # ts" "t - s < real_of_int T" "device_lists w = Raises # ds"
      "r_verbose r"
  proof -
    have "wait_for_device r T s w =
          wait_for_device r T s
            (sleep 1
               (emit (DINFO (WaitingForSpotifyDevice (py_int (t2 - s))))
                  (emit SpDevices (w\<lparr>times := t2 # ts, device_lists := ds\<rparr>)
                   \<lparr>times := ts\<rparr>)))"
      using that
      by (subst wait_for_device.simps)
        (simp add: time_time_def sp_devices_def del: wait_for_device.simps)
    also have "emit SpDevices (w\<lparr>times := t2 # ts, device_lists := ds\<rparr>)\<lparr>times := ts\<rparr>
          = emit SpDevices (w\<lparr>times := ts, device_lists := ds\<rparr>)"
      by (simp add: emit_def)
    finally show ?thesis .
  qed
  have 7: "attempts r uri n (a # rest) w =
          attempts r uri n rest
            (attempt_raised r a n
               (emit (SpStartPlayback [uri] 0)
                  (emit_if (r_verbose r)
                     (DINFO (StartingPlaybackViaWebApi (a + 1) n uri)) w
                   \<lparr>start_playbacks := ss\<rparr>)))"
    if "start_playbacks w = Raises # ss"
    using that
    by (simp add: sp_start_playback_def emit_if_def emit_def)
  from 1 2 3 4 5 6 7 show ?thesis by blast
qed

theorem fetch_failure_in_poll_loops_witness:
  "monitor_until_track_change (tracking ''A'') None
     (world0\<lparr>playbacks := [Raises, Returns (Some (snapshot ''A'' True 199000 200000))]\<rparr>)
   = Some (None, tracking ''A'',
           world0\<lparr>playbacks := [Returns (Some (snapshot ''A'' True 199000 200000))],
                  trace := [SpCurrentPlayback]\<rparr>)
   \<and> map_option fst
       (wait_for_track_start_loop (tracking ''A'') ''X'' 30 0
          (world0\<lparr>times := [0.1, 0.6],
             playbacks := [Raises, Returns (Some (snapshot ''X'' True 500 200000))]\<rparr>))
     = Some True
   \<and> map_option fst
       (wait_for_position_reset_loop (tracking ''A'') ''X'' 5 0
          (world0\<lparr>times := [0.1, 0.6],
             playbacks := [Raises, Returns (Some (snapshot ''X'' True 200 200000))]\<rparr>))
     = Some True
   \<and> map_option fst
       (wait_for_device (SpotifyRecorder_init False) 15 0
          (world0\<lparr>times := [0.1, 1.2],
             device_lists := [Raises, Returns [''Desktop'']]\<rparr>))
     = Some True
   \<and> map_option fst
       (wait_for_device (SpotifyRecorder_init True) 15 0
          (world0\<lparr>times := [0.1, 0.2, 1.2],
             device_lists := [Raises, Returns [''Desktop'']]\<rparr>))
     = Some True
   \<and> map_option fst
       (attempts (SpotifyRecorder_init False) ''X'' 3 [0, 1, 2]
          (world0\<lparr>playbacks := [Returns (Some (snapshot ''X'' True 300 200000))],
             start_playbacks := [Raises, Returns ()]\<rparr>))
     = Some True
   \<and> map_option fst
       (attempts (SpotifyRecorder_init False) ''X'' 3 [0, 1, 2]
          (world0\<lparr>playbacks := [Raises, Returns (Some (snapshot ''X'' True 300 200000))],
             start_playbacks := [Returns (), Returns ()]\<rparr>))
     = Some True"
proof -
  let ?m = "tracking ''A''"
  let ?x = "Returns (Some (snapshot ''X'' True 300 200000))"
  note defs = world_defs monitor_defs recorder_defs fixture_defs tracking_def
  have 1: "monitor_until_track_change ?m None
     (world0\<lparr>playbacks := [Raises, Returns (Some (snapshot ''A'' True 199000 200000))]\<rparr>)
   = Some (None, ?m,
           world0\<lparr>playbacks := [Returns (Some (snapshot ''A'' True 199000 200000))],
                  trace := [SpCurrentPlayback]\<rparr>)"
    using fetch_failure_in_poll_loops
      [of "world0\<lparr>playbacks := [Raises,
             Returns (Some (snapshot ''A'' True 199000 200000))]\<rparr>"
          "[Returns (Some (snapshot ''A'' True 199000 200000))]" ?m None]
    by (simp add: defs del: monitor_until_track_change.simps)
  have 2: "map_option fst
       (wait_for_track_start_loop ?m ''X'' 30 0
          (world0\<lparr>times := [0.1, 0.6],
             playbacks := [Raises, Returns (Some (snapshot ''X'' True 500 200000))]\<rparr>))
     = Some True"
    using fetch_failure_in_poll_loops
      [where w = "world0\<lparr>times := [0.1, 0.6],
             playbacks := [Raises, Returns (Some (snapshot ''X'' True 500 200000))]\<rparr>"
         and cs = "[Returns (Some (snapshot ''X'' True 500 200000))]"
         and t = "0.1" and ts = "[0.6]" and s = 0 and T = 30 and m = ?m and e = "''X''"]
    by (simp add: defs)
  have 3: "map_option fst
       (wait_for_position_reset_loop ?m ''X'' 5 0
          (world0\<lparr>times := [0.1, 0.6],
             playbacks := [Raises, Returns (Some (snapshot ''X'' True 200 200000))]\<rparr>))
     = Some True"
    using fetch_failure_in_poll_loops
      [where w = "world0\<lparr>times := [0.1, 0.6],
             playbacks := [Raises, Returns (Some (snapshot ''X'' True 200 200000))]\<rparr>"
         and cs = "[Returns (Some (snapshot ''X'' True 200 200000))]"
         and t = "0.1" and ts = "[0.6]" and s = 0 and T = 5 and m = ?m and e = "''X''"]
    by (simp add: defs)
  have 4: "map_option fst
       (wait_for_device (SpotifyRecorder_init False) 15 0
          (world0\<lparr>times := [0.1, 1.2],
             device_lists := [Raises, Returns [''Desktop'']]\<rparr>))
     = Some True"
    using fetch_failure_in_poll_loops
      [where w = "world0\<lparr>times := [0.1, 1.2],
             device_lists := [Raises, Returns [''Desktop'']]\<rparr>"
         and ds = "[Returns [''Desktop'']]"
         and t = "0.1" and ts = "[1.2]" and s = 0 and T = 15
         and r = "SpotifyRecorder_init False"]
    by (simp add: defs)
  have 5: "map_option fst
       (wait_for_device (SpotifyRecorder_init True) 15 0
          (world0\<lparr>times := [0.1, 0.2, 1.2],
             device_lists := [Raises, Returns [''Desktop'']]\<rparr>))
     = Some True"
    using fetch_failure_in_poll_loops
      [where w = "world0\<lparr>times := [0.1, 0.2, 1.2],
             device_lists := [Raises, Returns [''Desktop'']]\<rparr>"
         and ds = "[Returns [''Desktop'']]"
         and t = "0.1" and ?t2.0 = "0.2" and ts = "[1.2]" and s = 0 and T = 15
         and r = "SpotifyRecorder_init True"]
    by (simp add: defs)
  have 6: "map_option fst
       (attempts (SpotifyRecorder_init False) ''X'' 3 [0, 1, 2]
          (world0\<lparr>playbacks := [?x], start_playbacks := [Raises, Returns ()]\<rparr>))
     = Some True"
    using fetch_failure_in_poll_loops
      [where w = "world0\<lparr>playbacks := [?x], start_playbacks := [Raises, Returns ()]\<rparr>"
         and ss = "[Returns ()]" and r = "SpotifyRecorder_init False" and uri = "''X''"
         and n = 3 and a = 0 and rest = "[1, 2]"]
    by (simp add: defs)
  have 7: "map_option fst
       (attempts (SpotifyRecorder_init False) ''X'' 3 [0, 1, 2]
          (world0\<lparr>playbacks := [Raises, ?x], start_playbacks := [Returns (), Returns ()]\<rparr>))
     = Some True"
    using fetch_failure_in_poll_loops
      [where w = "world0\<lparr>playbacks := [Raises, ?x],
                        start_playbacks := [Returns (), Returns ()]\<rparr>"
         and ss = "[Returns ()]" and cs = "[?x]" and r = "SpotifyRecorder_init False"
         and uri = "''X''" and n = 3 and a = 0 and rest = "[1, 2]"]
    by (simp add: defs)
  from 1 2 3 4 5 6 7 show ?thesis by blast
qed

end
